theory Spec2Isabelle
  imports Complex_Main "HOL-Library.Char_ord" "HOL-Library.List_Lexorder"
    "HOL-Library.Product_Lexorder"
begin

section \<open>Brand forecasting pipeline: shared data model\<close>

text \<open>
  The three stages of the pipeline (\<^verbatim>\<open>data_preprocessing.py\<close>, \<^verbatim>\<open>prophet_forecast.py\<close>,
  \<^verbatim>\<open>lstm_forecast.py\<close>) exchange CSV tables. A table is a list of rows; a calendar date is
  the number of its day (\<^typ>\<open>int\<close>), so that \<^verbatim>\<open>pd.Timedelta(days=1)\<close> is \<open>+ 1\<close>; a float
  is an idealised real number (rounding is not modelled).

  The stages and both forecasters raise \<^verbatim>\<open>FileNotFoundError\<close> themselves; every other
  exception comes out of a library call.
\<close>

datatype error = FileNotFoundError | ValueError

text \<open>
  \<^verbatim>\<open>train_size = int(len(X) * 0.8)\<close>: the product is taken in the reals and truncated. (The
  float \<^verbatim>\<open>0.8\<close> is slightly above \<open>4/5\<close>; for the length of any table that fits in memory the
  float product has the same integer part.)
\<close>

definition train_size :: "nat \<Rightarrow> nat" where
  "train_size n = nat \<lfloor>real n * 0.8\<rfloor>"

text \<open>\<^verbatim>\<open>xs[-k:]\<close> for a positive \<open>k\<close>: the last \<open>k\<close> elements (all of them when there are fewer).\<close>

definition last_n :: "nat \<Rightarrow> 'a list \<Rightarrow> 'a list" where
  "last_n k xs = drop (length xs - k) xs"

text \<open>\<^verbatim>\<open>np.mean\<close> of a list of reals.\<close>

definition mean :: "real list \<Rightarrow> real" where
  "mean xs = sum_list xs / real (length xs)"

text \<open>
  \<^verbatim>\<open>np.sqrt(mean_squared_error(y_true, y_pred))\<close> and
  \<^verbatim>\<open>mean_absolute_percentage_error(y_true, y_pred) * 100\<close> of scikit-learn, whose
  denominator is \<^verbatim>\<open>max(|y_true|, eps)\<close> with the machine epsilon of float64.
\<close>

definition float_eps :: real where
  "float_eps = 1 / 2 ^ 52"

definition rmse_of :: "real list \<Rightarrow> real list \<Rightarrow> real" where
  "rmse_of y_true y_pred = sqrt (mean (map2 (\<lambda>t p. (t - p)\<^sup>2) y_true y_pred))"

definition mape_of :: "real list \<Rightarrow> real list \<Rightarrow> real" where
  "mape_of y_true y_pred =
     mean (map2 (\<lambda>t p. \<bar>p - t\<bar> / max \<bar>t\<bar> float_eps) y_true y_pred) * 100"

text \<open>
  \<^verbatim>\<open>xs[:train_size], xs[train_size:]\<close>: the split both forecasters make, of the rows of a
  frame or of the samples.
\<close>

definition split_80_20 :: "'a list \<Rightarrow> 'a list \<times> 'a list" where
  "split_80_20 xs = (take (train_size (length xs)) xs, drop (train_size (length xs)) xs)"

text \<open>
  A row of \<^verbatim>\<open>processed_sales.csv\<close> as the forecasters read it. \<open>extra\<close> gives the cell of
  every other column by its name; which columns the file has is a property of the table
  (\<open>columns\<close>). The type of a cell is a parameter: the seasonal forecaster cleans missing
  and infinite cells, the sequence forecaster does no cleaning and computes with numbers.
\<close>

record 'v sales_row =
  Date :: int
  Brand :: string
  Total_Sales :: 'v
  Online_Popularity :: 'v
  extra :: "string \<Rightarrow> 'v"

record 'v sales_table =
  columns :: "string list"
  rows :: "'v sales_row list"

text \<open>
  \<^verbatim>\<open>df.groupby("Brand")\<close>: the distinct brands in ascending order, each with its rows in
  the order of the table.
\<close>

definition groupby_Brand :: "'v sales_row list \<Rightarrow> (string \<times> 'v sales_row list) list" where
  "groupby_Brand df =
     map (\<lambda>b. (b, filter (\<lambda>r. Brand r = b) df)) (sort (remdups (map Brand df)))"

text \<open>A row of a metrics table.\<close>

record metrics_row =
  m_Brand :: string
  RMSE :: real
  MAPE :: real

text \<open>
  The loop \<^verbatim>\<open>for brand, brand_df in df.groupby("Brand")\<close> of both forecasters. The body
  either raises (\<open>Inl\<close>, which ends the run), or skips the brand with \<^verbatim>\<open>continue\<close>
  (\<open>Inr None\<close>), or appends one row to \<open>metrics\<close> and one frame to the list of forecasts.
\<close>

fun brand_loop ::
  "(string \<Rightarrow> 'v sales_row list \<Rightarrow> error + (metrics_row \<times> 'f list) option)
     \<Rightarrow> (string \<times> 'v sales_row list) list \<Rightarrow> 'f list list \<times> metrics_row list
     \<Rightarrow> error + 'f list list \<times> metrics_row list" where
  "brand_loop body [] acc = Inr acc"
| "brand_loop body ((brand, brand_df) # rest) (forecasts, metrics) =
     (case body brand brand_df of
        Inl e \<Rightarrow> Inl e
      | Inr None \<Rightarrow> brand_loop body rest (forecasts, metrics)
      | Inr (Some (m, f)) \<Rightarrow> brand_loop body rest (forecasts @ [f], metrics @ [m]))"

section \<open>Sequence forecaster (\<^verbatim>\<open>lstm_forecast.py\<close>)\<close>

text \<open>
  The sequence forecaster is modelled on a table of numbers. A missing or infinite cell, on
  which \<^verbatim>\<open>MinMaxScaler\<close> or the metrics of scikit-learn raise \<^verbatim>\<open>ValueError\<close>, is outside this
  model: the definitions below say nothing about such a table.
\<close>

type_synonym lstm_row = "real sales_row"

record lstm_forecast_row =
  f_Date :: int
  f_Brand :: string
  Predicted_Sales :: real

definition lstm_extra_regressors :: "string list" where
  "lstm_extra_regressors =
     [''Competitor_Price'', ''Category_Trend_Index'', ''Customer_Growth_Rate'',
      ''Customer_Retention_Rate'', ''Stock_Level'', ''Supply_Delay_Days'',
      ''Inflation_Rate'', ''Weather_Score'', ''Is_Holiday'']"

definition seq_length :: nat where
  "seq_length = 7"

text \<open>
  \<^verbatim>\<open>brand_df.groupby("Date", as_index=False).agg(agg_dict)\<close> followed by
  \<^verbatim>\<open>brand_df[features].values\<close>: one row per distinct date, in ascending order, holding the
  date and the feature vector \<^verbatim>\<open>[sum Total_Sales, mean Online_Popularity, mean reg ...]\<close>
  for the extra regressors that are columns of the table.
\<close>

definition features_of :: "string list \<Rightarrow> string list" where
  "features_of cols = [reg \<leftarrow> lstm_extra_regressors. reg \<in> set cols]"

definition agg_by_Date :: "string list \<Rightarrow> lstm_row list \<Rightarrow> (int \<times> real list) list" where
  "agg_by_Date cols brand_df =
     map (\<lambda>d. let g = filter (\<lambda>r. Date r = d) brand_df in
            (d, sum_list (map Total_Sales g) # mean (map Online_Popularity g) #
                map (\<lambda>reg. mean (map (\<lambda>r. extra r reg) g)) (features_of cols)))
         (sort (remdups (map Date brand_df)))"

subsection \<open>\<^verbatim>\<open>MinMaxScaler\<close>\<close>

text \<open>
  The scaler of scikit-learn with its default range \<open>(0, 1)\<close>: per column,
  \<^verbatim>\<open>scale_ = 1 / handle_zeros(data_max - data_min)\<close>, \<^verbatim>\<open>min_ = 0 - data_min * scale_\<close>,
  \<^verbatim>\<open>transform(X) = X * scale_ + min_\<close> and \<^verbatim>\<open>inverse_transform(X) = (X - min_) / scale_\<close>.
  A column whose range is (nearly) zero is scaled by 1.
\<close>

record scaler =
  sc_scale :: "real list"
  sc_min :: "real list"

definition column :: "nat \<Rightarrow> real list list \<Rightarrow> real list" where
  "column j X = map (\<lambda>r. r ! j) X"

definition handle_zeros_in_scale :: "real \<Rightarrow> real" where
  "handle_zeros_in_scale s = (if s < 10 * float_eps then 1 else s)"

definition fit :: "real list list \<Rightarrow> scaler" where
  "fit X =
     (let n_features = length (hd X);
          data_min = map (\<lambda>j. Min (set (column j X))) [0..<n_features];
          data_max = map (\<lambda>j. Max (set (column j X))) [0..<n_features];
          sc = map (\<lambda>j. 1 / handle_zeros_in_scale (data_max ! j - data_min ! j)) [0..<n_features]
      in \<lparr>sc_scale = sc, sc_min = map (\<lambda>j. 0 - data_min ! j * sc ! j) [0..<n_features]\<rparr>)"

definition transform :: "scaler \<Rightarrow> real list list \<Rightarrow> real list list" where
  "transform s X = map (\<lambda>r. map (\<lambda>j. r ! j * sc_scale s ! j + sc_min s ! j) [0..<length r]) X"

definition inverse_transform :: "scaler \<Rightarrow> real list list \<Rightarrow> real list list" where
  "inverse_transform s X = map (\<lambda>r. map (\<lambda>j. (r ! j - sc_min s ! j) / sc_scale s ! j) [0..<length r]) X"

definition fit_transform :: "real list list \<Rightarrow> scaler \<times> real list list" where
  "fit_transform X = (fit X, transform (fit X) X)"

subsection \<open>Windows, split and rollout\<close>

text \<open>
  \<^verbatim>\<open>for i in range(len(scaled) - seq_length): X.append(scaled[i:i+seq_length]);
  y.append(scaled[i + seq_length, 0])\<close>
\<close>

definition make_X :: "real list list \<Rightarrow> real list list list" where
  "make_X scaled = map (\<lambda>i. take seq_length (drop i scaled)) [0..<length scaled - seq_length]"

definition make_y :: "real list list \<Rightarrow> real list" where
  "make_y scaled = map (\<lambda>i. scaled ! (i + seq_length) ! 0) [0..<length scaled - seq_length]"

text \<open>
  The 30 steps of the rollout. The state of the loop is the running series \<open>scaled\<close>, the
  current window \<open>last_seq\<close> and the rows appended so far; \<open>forward\<close> is the trained network
  applied to one window.
\<close>

fun rollout ::
  "(real list list \<Rightarrow> real) \<Rightarrow> nat \<Rightarrow> real list list \<times> real list list \<times> real list list
     \<Rightarrow> real list list \<times> real list list \<times> real list list" where
  "rollout forward 0 st = st"
| "rollout forward (Suc n) (scaled, last_seq, future_scaled) =
     (let pred = forward last_seq;
          last_features = last scaled;
          next_step = pred # tl last_features;
          future_scaled' = future_scaled @ [next_step];
          scaled' = scaled @ [next_step]
      in rollout forward n (scaled', last_n seq_length scaled', future_scaled'))"

text \<open>
  One iteration of the loop over the brands. \<open>train_model\<close> stands for the construction of
  the network and its 80 epochs of training on \<open>(X_train, y_train)\<close>; \<open>forward\<close> applies a
  network to a window.
\<close>

definition lstm_brand ::
  "(real list list list \<Rightarrow> real list \<Rightarrow> 'm) \<Rightarrow> ('m \<Rightarrow> real list list \<Rightarrow> real)
     \<Rightarrow> string list \<Rightarrow> string \<Rightarrow> lstm_row list
     \<Rightarrow> error + (metrics_row \<times> lstm_forecast_row list) option" where
  "lstm_brand train_model forward cols brand brand_df0 =
     (let brand_df = agg_by_Date cols (sort_key Date brand_df0) in
      if length brand_df < seq_length + 1 then Inr None
      else
        let feature_array = map snd brand_df;
            (scaler, scaled) = fit_transform feature_array;
            X = make_X scaled;
            y = make_y scaled
        in if length X < 20 then Inr None
           else
             let (X_train, X_test) = split_80_20 X;
                 (y_train, y_test) = split_80_20 y;
                 model = train_model X_train y_train;
                 preds = map (forward model) X_test;
                 rmse = rmse_of y_test preds;
                 mape = mape_of y_test preds;
                 (scaled', last_seq, future_scaled) =
                    rollout (forward model) 30 (scaled, last_n seq_length scaled, []);
                 repeated_features = replicate 30 (tl (snd (last brand_df)));
                 full_inverse_data = map2 (\<lambda>r f. hd r # f) future_scaled repeated_features;
                 future_sales = map hd (inverse_transform scaler full_inverse_data);
                 start = Max (set (map fst brand_df)) + 1;
                 future_dates = map (\<lambda>i. start + int i) [0..<30]
             in Inr (Some (\<lparr>m_Brand = brand, RMSE = rmse, MAPE = mape\<rparr>,
                      map2 (\<lambda>d v. \<lparr>f_Date = d, f_Brand = brand, Predicted_Sales = v\<rparr>)
                           future_dates future_sales)))"

text \<open>
  \<^verbatim>\<open>run_lstm_forecast\<close>: the two files are written only when some brand was forecast.
  The result is the pair of tables written (\<open>None\<close> when nothing is written) or the error
  raised.
\<close>

definition run_lstm_forecast ::
  "(real list list list \<Rightarrow> real list \<Rightarrow> 'm) \<Rightarrow> ('m \<Rightarrow> real list list \<Rightarrow> real)
     \<Rightarrow> real sales_table option
     \<Rightarrow> error + (lstm_forecast_row list \<times> metrics_row list) option" where
  "run_lstm_forecast train_model forward PROCESSED_FILE =
     (case PROCESSED_FILE of
        None \<Rightarrow> Inl FileNotFoundError
      | Some df \<Rightarrow>
          (case brand_loop (lstm_brand train_model forward (columns df))
                           (groupby_Brand (rows df)) ([], []) of
             Inl e \<Rightarrow> Inl e
           | Inr (forecasts, metrics) \<Rightarrow>
               if forecasts \<noteq> [] then Inr (Some (concat forecasts, metrics)) else Inr None))"

section \<open>Seasonal forecaster (\<^verbatim>\<open>prophet_forecast.py\<close>)\<close>

text \<open>
  The seasonal forecaster cleans missing and infinite cells, so its cells are floats with
  their special values: a number, \<^verbatim>\<open>NaN\<close>, \<^verbatim>\<open>inf\<close> or \<^verbatim>\<open>-inf\<close>.
\<close>

datatype fval = Fin real | NaN | PInf | NInf

fun fadd :: "fval \<Rightarrow> fval \<Rightarrow> fval" where
  "fadd (Fin a) (Fin b) = Fin (a + b)"
| "fadd NaN v = NaN"
| "fadd v NaN = NaN"
| "fadd PInf NInf = NaN"
| "fadd NInf PInf = NaN"
| "fadd PInf v = PInf"
| "fadd v PInf = PInf"
| "fadd NInf v = NInf"
| "fadd v NInf = NInf"

fun fdiv_nat :: "fval \<Rightarrow> nat \<Rightarrow> fval" where
  "fdiv_nat (Fin a) n = Fin (a / real n)"
| "fdiv_nat v n = v"

text \<open>
  The aggregations \<^verbatim>\<open>"sum"\<close> and \<^verbatim>\<open>"mean"\<close> of a pandas group skip \<^verbatim>\<open>NaN\<close>: the sum of a
  group without a value is 0, its mean is \<^verbatim>\<open>NaN\<close>.
\<close>

definition group_sum :: "fval list \<Rightarrow> fval" where
  "group_sum vs = foldl fadd (Fin 0) [v \<leftarrow> vs. v \<noteq> NaN]"

definition group_mean :: "fval list \<Rightarrow> fval" where
  "group_mean vs =
     (let ws = [v \<leftarrow> vs. v \<noteq> NaN] in if ws = [] then NaN else fdiv_nat (group_sum ws) (length ws))"

definition extra_regressors :: "string list" where
  "extra_regressors =
     [''Competitor_Price'', ''Category_Trend_Index'', ''Customer_Growth_Rate'',
      ''Customer_Retention_Rate'', ''Stock_Level'', ''Supply_Delay_Days'',
      ''Inflation_Rate'', ''Weather_Score'', ''Promotion'',
      ''Discount_Percentage'', ''Is_Holiday'']"

text \<open>
  A row of \<^verbatim>\<open>prophet_df\<close>: the timestamp \<open>ds\<close>, the target \<open>y\<close> and the regressor columns by
  name (\<^verbatim>\<open>Trend_Score\<close> and the used extra regressors).
\<close>

record prophet_row =
  ds :: int
  y :: fval
  x :: "string \<Rightarrow> fval"

record prophet_forecast_row =
  p_Date :: int
  p_Brand :: string
  p_Predicted_Sales :: real
  Predicted_Sales_Lower :: real
  Predicted_Sales_Upper :: real

definition used_regressors :: "string list \<Rightarrow> string list" where
  "used_regressors cols = [col \<leftarrow> extra_regressors. col \<in> set cols]"

text \<open>
  \<^verbatim>\<open>brand_df.groupby("Date", as_index=False).agg(agg_dict)\<close>, the selection of
  \<^verbatim>\<open>prophet_cols\<close> and the renaming to \<^verbatim>\<open>ds\<close>, \<^verbatim>\<open>y\<close>, \<^verbatim>\<open>Trend_Score\<close>.
\<close>

definition make_prophet_df :: "string list \<Rightarrow> fval sales_row list \<Rightarrow> prophet_row list" where
  "make_prophet_df cols brand_df =
     map (\<lambda>d. let g = filter (\<lambda>r. Date r = d) brand_df in
            \<lparr>ds = d, y = group_sum (map Total_Sales g),
             x = (\<lambda>c. if c = ''Trend_Score'' then group_mean (map Online_Popularity g)
                       else if c \<in> set (used_regressors cols) then group_mean (map (\<lambda>r. extra r c) g)
                       else NaN)\<rparr>)
         (sort (remdups (map Date brand_df)))"

text \<open>
  The cleaning: \<^verbatim>\<open>replace([np.inf, -np.inf], np.nan)\<close> on every column,
  \<^verbatim>\<open>dropna(subset=["y"])\<close>, and the filter on \<^verbatim>\<open>pd.to_numeric(y).notnull()\<close>.
\<close>

definition replace_inf :: "fval \<Rightarrow> fval" where
  "replace_inf v = (if v = PInf \<or> v = NInf then NaN else v)"

definition clean :: "prophet_row list \<Rightarrow> prophet_row list" where
  "clean prophet_df =
     (let replaced = map (\<lambda>r. r\<lparr>y := replace_inf (y r), x := (\<lambda>c. replace_inf (x r c))\<rparr>) prophet_df;
          dropped = filter (\<lambda>r. y r \<noteq> NaN) replaced
      in filter (\<lambda>r. y r \<noteq> NaN) dropped)"

text \<open>
  \<^verbatim>\<open>train.isnull().any().any()\<close> over the columns of the frame, and
  \<^verbatim>\<open>train[col].nunique()\<close>, which counts the distinct values other than \<^verbatim>\<open>NaN\<close>.
\<close>

definition isnull_any :: "string list \<Rightarrow> prophet_row list \<Rightarrow> bool" where
  "isnull_any cols frame =
     list_ex (\<lambda>r. y r = NaN \<or> list_ex (\<lambda>c. x r c = NaN) (''Trend_Score'' # used_regressors cols)) frame"

definition nunique :: "string \<Rightarrow> prophet_row list \<Rightarrow> nat" where
  "nunique col frame = length (remdups [v \<leftarrow> map (\<lambda>r. x r col) frame. v \<noteq> NaN])"

definition regressors_to_use :: "string list \<Rightarrow> prophet_row list \<Rightarrow> string list" where
  "regressors_to_use cols train =
     (if nunique ''Trend_Score'' train > 1 then [''Trend_Score''] else []) @
     [reg \<leftarrow> used_regressors cols. nunique reg train > 1]"

subsection \<open>The Prophet library\<close>

text \<open>
  The fitted model is opaque: \<open>fit_model\<close> stands for \<^verbatim>\<open>Prophet(...).fit(train[...])\<close> with the
  admitted regressors, \<open>predict_row\<close> for the point estimate and its bounds that the model
  gives for a timestamp and the values of its regressors. What the library does around them
  is modelled as the library documents it:
  \<^item> \<^verbatim>\<open>predict\<close> (through \<^verbatim>\<open>setup_dataframe\<close>) raises \<^verbatim>\<open>ValueError("Found NaN in column ...")\<close>
    when a regressor column of the frame holds a missing value;
  \<^item> \<^verbatim>\<open>make_future_dataframe(periods)\<close> returns the distinct timestamps the model was fitted
    on, in ascending order, followed by \<open>periods\<close> daily timestamps after the last of them
    (\<^verbatim>\<open>include_history=True\<close> is the default).
\<close>

definition predict ::
  "('m \<Rightarrow> int \<Rightarrow> fval list \<Rightarrow> real \<times> real \<times> real) \<Rightarrow> 'm \<Rightarrow> string list
     \<Rightarrow> (int \<times> (string \<Rightarrow> fval)) list \<Rightarrow> error + (int \<times> real \<times> real \<times> real) list" where
  "predict predict_row model regs frame =
     (if list_ex (\<lambda>(d, xs). list_ex (\<lambda>c. xs c = NaN) regs) frame then Inl ValueError
      else Inr (map (\<lambda>(d, xs). (d, predict_row model d (map xs regs))) frame))"

definition make_future_dataframe :: "prophet_row list \<Rightarrow> nat \<Rightarrow> int list" where
  "make_future_dataframe history periods =
     (let history_dates = sort (remdups (map ds history));
          last_date = Max (set history_dates)
      in history_dates @ map (\<lambda>i. last_date + 1 + int i) [0..<periods])"

text \<open>
  \<^verbatim>\<open>future.merge(prophet_df[["ds"] + regressors_to_use], on="ds", how="left")\<close>: every
  timestamp of \<open>future\<close> with the regressors of each row of \<open>prophet_df\<close> that has this
  timestamp, or with missing values when there is none; then
  \<^verbatim>\<open>future[reg].fillna(method="ffill", inplace=True)\<close> on each regressor.
\<close>

definition merge_left :: "int list \<Rightarrow> prophet_row list \<Rightarrow> (int \<times> (string \<Rightarrow> fval)) list" where
  "merge_left future prophet_df =
     concat (map (\<lambda>d. case filter (\<lambda>r. ds r = d) prophet_df of
                         [] \<Rightarrow> [(d, (\<lambda>c. NaN))]
                       | ms \<Rightarrow> map (\<lambda>r. (d, x r)) ms) future)"

fun ffill :: "string \<Rightarrow> fval \<Rightarrow> (int \<times> (string \<Rightarrow> fval)) list \<Rightarrow> (int \<times> (string \<Rightarrow> fval)) list" where
  "ffill reg prev [] = []"
| "ffill reg prev ((d, xs) # rest) =
     (if xs reg = NaN then (d, xs(reg := prev)) # ffill reg prev rest
      else (d, xs) # ffill reg (xs reg) rest)"

text \<open>
  The target of a cleaned row is a number; \<^verbatim>\<open>test["y"]\<close> is read through \<open>the_Fin\<close>.
\<close>

fun the_Fin :: "fval \<Rightarrow> real" where
  "the_Fin (Fin v) = v"
| "the_Fin v = 0"

text \<open>One iteration of the loop over the brands.\<close>

definition prophet_brand ::
  "(prophet_row list \<Rightarrow> string list \<Rightarrow> 'm) \<Rightarrow> ('m \<Rightarrow> int \<Rightarrow> fval list \<Rightarrow> real \<times> real \<times> real)
     \<Rightarrow> string list \<Rightarrow> string \<Rightarrow> fval sales_row list
     \<Rightarrow> error + (metrics_row \<times> prophet_forecast_row list) option" where
  "prophet_brand fit_model predict_row cols brand brand_df0 =
     (let prophet_df = clean (make_prophet_df cols (sort_key Date brand_df0)) in
      if length prophet_df < 3 then Inr None
      else
        let (train, test) = split_80_20 prophet_df in
        if length train < 2 \<or> isnull_any cols train then Inr None
        else if test = [] then Inr None
        else
          let regs = regressors_to_use cols train;
              model = fit_model train regs
          in case predict predict_row model regs (map (\<lambda>r. (ds r, x r)) test) of
               Inl e \<Rightarrow> Inl e
             | Inr forecast_test \<Rightarrow>
                 let yhat = map (\<lambda>(d, v, lo, hi). v) forecast_test;
                     rmse = rmse_of (map (\<lambda>r. the_Fin (y r)) test) yhat;
                     mape = mape_of (map (\<lambda>r. the_Fin (y r)) test) yhat;
                     future = merge_left (make_future_dataframe train 30) prophet_df;
                     future' = fold (\<lambda>reg fr. ffill reg NaN fr) regs future
                 in case predict predict_row model regs future' of
                      Inl e \<Rightarrow> Inl e
                    | Inr forecast \<Rightarrow>
                        Inr (Some (\<lparr>m_Brand = brand, RMSE = rmse, MAPE = mape\<rparr>,
                                   map (\<lambda>(d, v, lo, hi).
                                          \<lparr>p_Date = d, p_Brand = brand, p_Predicted_Sales = v,
                                           Predicted_Sales_Lower = lo, Predicted_Sales_Upper = hi\<rparr>)
                                       forecast)))"

text \<open>
  \<^verbatim>\<open>forecast_with_prophet\<close>: the result is the pair of tables written (\<open>None\<close> when no
  forecast was generated and nothing is written) or the error raised.
\<close>

definition forecast_with_prophet ::
  "(prophet_row list \<Rightarrow> string list \<Rightarrow> 'm) \<Rightarrow> ('m \<Rightarrow> int \<Rightarrow> fval list \<Rightarrow> real \<times> real \<times> real)
     \<Rightarrow> fval sales_table option
     \<Rightarrow> error + (prophet_forecast_row list \<times> metrics_row list) option" where
  "forecast_with_prophet fit_model predict_row PROCESSED_FILE =
     (case PROCESSED_FILE of
        None \<Rightarrow> Inl FileNotFoundError
      | Some df \<Rightarrow>
          (case brand_loop (prophet_brand fit_model predict_row (columns df))
                           (groupby_Brand (rows df)) ([], []) of
             Inl e \<Rightarrow> Inl e
           | Inr (forecast_results, metrics) \<Rightarrow>
               if forecast_results = [] then Inr None
               else Inr (Some (concat forecast_results, metrics))))"

section \<open>Preprocessing (\<^verbatim>\<open>data_preprocessing.py\<close>)\<close>

text \<open>
  A row of the raw table. A numeric cell is a number or missing (\<open>None\<close> is \<^verbatim>\<open>NaN\<close>); \<open>num\<close>
  gives the numeric cell of a column by its name. \<open>r_Date\<close> is what
  \<^verbatim>\<open>pd.to_datetime(..., errors="coerce")\<close> gives for the date of the row (\<open>None\<close> is \<^verbatim>\<open>NaT\<close>).
  \<open>r_columns\<close> lists the columns of the table; the columns that the stage reads without a
  test (\<^verbatim>\<open>Date\<close>, \<^verbatim>\<open>Category\<close>, \<^verbatim>\<open>Brand\<close>, \<^verbatim>\<open>Region\<close>, \<^verbatim>\<open>Total_Sales\<close>, \<^verbatim>\<open>Quantity_Sold\<close>,
  \<^verbatim>\<open>Online_Popularity\<close>) are taken to be among them.
\<close>

record raw_row =
  r_Date :: "int option"
  r_Category :: string
  r_Brand :: string
  r_Region :: string
  num :: "string \<Rightarrow> real option"

record raw_table =
  r_columns :: "string list"
  r_rows :: "raw_row list"

text \<open>The key of a row in the final aggregation.\<close>

definition raw_key :: "raw_row \<Rightarrow> string \<times> string \<times> int option" where
  "raw_key r = (r_Category r, r_Brand r, r_Date r)"

text \<open>\<^verbatim>\<open>df[c]\<close> and \<^verbatim>\<open>df[c] = vs\<close>.\<close>

definition cells :: "string \<Rightarrow> raw_row list \<Rightarrow> real option list" where
  "cells c df = map (\<lambda>r. num r c) df"

definition assign :: "string \<Rightarrow> real option list \<Rightarrow> raw_row list \<Rightarrow> raw_row list" where
  "assign c vs df = map2 (\<lambda>r v. r\<lparr>num := (num r)(c := v)\<rparr>) df vs"

text \<open>
  The reductions of pandas skip missing values: \<^verbatim>\<open>median\<close>, \<^verbatim>\<open>mean\<close> and \<^verbatim>\<open>std\<close> (the sample
  standard deviation, with \<open>n - 1\<close> in the denominator) are missing when there are too few
  values.
\<close>

definition dropna :: "real option list \<Rightarrow> real list" where
  "dropna vs = map the (filter (\<lambda>v. v \<noteq> None) vs)"

definition median :: "real option list \<Rightarrow> real option" where
  "median vs =
     (let s = sort (dropna vs); n = length s
      in if n = 0 then None
         else if odd n then Some (s ! (n div 2))
         else Some ((s ! (n div 2 - 1) + s ! (n div 2)) / 2))"

definition pd_mean :: "real option list \<Rightarrow> real option" where
  "pd_mean vs = (let s = dropna vs in if s = [] then None else Some (sum_list s / real (length s)))"

definition pd_std :: "real option list \<Rightarrow> real option" where
  "pd_std vs =
     (let s = dropna vs; n = length s; m = sum_list s / real n
      in if n < 2 then None
         else Some (sqrt (sum_list (map (\<lambda>v. (v - m)\<^sup>2) s) / real (n - 1))))"

definition fillna :: "real option \<Rightarrow> real option list \<Rightarrow> real option list" where
  "fillna m vs = map (\<lambda>v. case v of None \<Rightarrow> m | Some a \<Rightarrow> Some a) vs"

subsection \<open>Missing values\<close>

definition numeric_fill_cols :: "string list" where
  "numeric_fill_cols =
     [''Competitor_Price'', ''Category_Trend_Index'', ''Customer_Growth_Rate'',
      ''Customer_Retention_Rate'', ''Stock_Level'', ''Supply_Delay_Days'',
      ''Inflation_Rate'', ''Weather_Score'']"

definition fill_median :: "string \<Rightarrow> raw_row list \<Rightarrow> raw_row list" where
  "fill_median c df = assign c (fillna (median (cells c df)) (cells c df)) df"

definition handle_missing :: "string list \<Rightarrow> raw_row list \<Rightarrow> raw_row list" where
  "handle_missing cols df0 =
     (let df1 = fill_median ''Online_Popularity'' df0;
          df2 = fill_median ''Total_Sales'' df1;
          df3 = fill_median ''Quantity_Sold'' df2;
          df4 = fold (\<lambda>c df. if c \<in> set cols then fill_median c df else df) numeric_fill_cols df3
      in if ''Is_Holiday'' \<in> set cols
         then assign ''Is_Holiday'' (fillna (Some 0) (cells ''Is_Holiday'' df4)) df4
         else df4)"

subsection \<open>Sorting and encoding\<close>

text \<open>
  \<^verbatim>\<open>df.sort_values(by=["Brand", "Date"])\<close>, with the rows without a date last in their
  brand, and \<^verbatim>\<open>LabelEncoder().fit_transform\<close>, which numbers the distinct values in
  ascending order.
\<close>

definition sort_values :: "raw_row list \<Rightarrow> raw_row list" where
  "sort_values df =
     sort_key (\<lambda>r. (r_Brand r, case r_Date r of None \<Rightarrow> (1 :: nat, 0 :: int) | Some d \<Rightarrow> (0, d))) df"

definition fit_transform_labels :: "string list \<Rightarrow> real option list" where
  "fit_transform_labels vs =
     (let classes = sort (remdups vs)
      in map (\<lambda>v. Some (real (length (takeWhile (\<lambda>c. c \<noteq> v) classes)))) vs)"

definition encode_labels :: "raw_row list \<Rightarrow> raw_row list" where
  "encode_labels df0 =
     (let df1 = assign ''Category_Encoded'' (fit_transform_labels (map r_Category df0)) df0;
          df2 = assign ''Brand_Encoded'' (fit_transform_labels (map r_Brand df1)) df1
      in assign ''Region_Encoded'' (fit_transform_labels (map r_Region df2)) df2)"

subsection \<open>Lag and rolling mean per brand\<close>

text \<open>
  \<^verbatim>\<open>df.groupby("Brand")[c].transform(f)\<close>: \<open>f\<close> is applied to the cells of each brand, in the
  order of the table, and every row gets the cell at its position within its brand.
\<close>

definition transform_by_Brand ::
  "(real option list \<Rightarrow> real option list) \<Rightarrow> raw_row list \<Rightarrow> real option list \<Rightarrow> real option list" where
  "transform_by_Brand f df vs =
     map (\<lambda>i. let b = r_Brand (df ! i);
                  idx = [j \<leftarrow> [0..<length df]. r_Brand (df ! j) = b]
              in f (map (\<lambda>j. vs ! j) idx) ! length [j \<leftarrow> [0..<i]. r_Brand (df ! j) = b])
         [0..<length df]"

definition shift :: "real option list \<Rightarrow> real option list" where
  "shift vs = take (length vs) (None # vs)"

definition rolling_mean :: "real option list \<Rightarrow> real option list" where
  "rolling_mean vs = map (\<lambda>i. pd_mean (take (min 3 (i + 1)) (drop (i + 1 - 3) vs))) [0..<length vs]"

fun ffill_cells :: "real option \<Rightarrow> real option list \<Rightarrow> real option list" where
  "ffill_cells prev [] = []"
| "ffill_cells prev (None # vs) = prev # ffill_cells prev vs"
| "ffill_cells prev (Some a # vs) = Some a # ffill_cells (Some a) vs"

definition bfill_cells :: "real option list \<Rightarrow> real option list" where
  "bfill_cells vs = rev (ffill_cells None (rev vs))"

definition feature_engineering :: "raw_row list \<Rightarrow> raw_row list" where
  "feature_engineering df0 =
     (let df1 = assign ''Sales_Lag_1'' (transform_by_Brand shift df0 (cells ''Total_Sales'' df0)) df0;
          df2 = assign ''Sales_MA_3'' (transform_by_Brand rolling_mean df1 (cells ''Total_Sales'' df1)) df1;
          df3 = assign ''Sales_Lag_1''
                  (transform_by_Brand (\<lambda>vs. bfill_cells (ffill_cells None vs)) df2 (cells ''Sales_Lag_1'' df2))
                  df2
      in assign ''Sales_MA_3''
           (map2 (\<lambda>m t. case m of None \<Rightarrow> t | Some a \<Rightarrow> Some a)
                 (cells ''Sales_MA_3'' df3) (cells ''Total_Sales'' df3))
           df3)"

subsection \<open>Normalisation\<close>

definition numeric_cols_to_normalize :: "string list" where
  "numeric_cols_to_normalize =
     [''Quantity_Sold'', ''Online_Popularity'', ''Sales_Lag_1'', ''Sales_MA_3'',
      ''Competitor_Price'', ''Category_Trend_Index'', ''Customer_Growth_Rate'',
      ''Customer_Retention_Rate'', ''Stock_Level'', ''Supply_Delay_Days'',
      ''Inflation_Rate'', ''Weather_Score'']"

text \<open>\<^verbatim>\<open>lambda x: (x - x.mean()) / (x.std() + 1e-6)\<close> on a column.\<close>

definition zscore :: "real option list \<Rightarrow> real option list" where
  "zscore vs =
     (case (pd_mean vs, pd_std vs) of
        (Some m, Some sd) \<Rightarrow> map (map_option (\<lambda>v. (v - m) / (sd + 1 / 10 ^ 6))) vs
      | _ \<Rightarrow> map (\<lambda>v. None) vs)"

definition normalize_columns :: "string list \<Rightarrow> raw_row list \<Rightarrow> raw_row list" where
  "normalize_columns cols df =
     (let existing_numeric_cols = [c \<leftarrow> numeric_cols_to_normalize. c \<in> set cols]
      in fold (\<lambda>c d. assign c (zscore (cells c df)) d) existing_numeric_cols df)"

subsection \<open>Aggregation\<close>

datatype how = Sum | Mean | First

definition agg_dict :: "(string \<times> how) list" where
  "agg_dict =
     [(''Total_Sales'', Sum), (''Quantity_Sold'', Sum), (''Online_Popularity'', Mean),
      (''Competitor_Price'', Mean), (''Category_Trend_Index'', Mean),
      (''Customer_Growth_Rate'', Mean), (''Customer_Retention_Rate'', Mean),
      (''Stock_Level'', Mean), (''Supply_Delay_Days'', Mean), (''Inflation_Rate'', Mean),
      (''Weather_Score'', Mean), (''Promotion'', Mean), (''Discount_Percentage'', Mean),
      (''Is_Holiday'', Mean), (''Sales_Lag_1'', Mean), (''Sales_MA_3'', Mean),
      (''Category_Encoded'', First), (''Brand_Encoded'', First), (''Region_Encoded'', First)]"

fun aggregate :: "how \<Rightarrow> real option list \<Rightarrow> real option" where
  "aggregate Sum vs = Some (sum_list (dropna vs))"
| "aggregate Mean vs = pd_mean vs"
| "aggregate First vs = (case dropna vs of [] \<Rightarrow> None | a # as \<Rightarrow> Some a)"

text \<open>
  A row of the aggregated table: the key \<^verbatim>\<open>(Category, Brand, Date)\<close> and the aggregated cells.
  The last entry \<^verbatim>\<open>"Category": "first"\<close> of the source's dictionary gives the category of the
  key; as \<^verbatim>\<open>Category\<close> is aggregated, pandas does not insert it in front with the other two
  keys, and it is the last column of the table.
\<close>

record agg_row =
  a_Category :: string
  a_Brand :: string
  a_Date :: int
  a_num :: "string \<Rightarrow> real option"

record agg_table =
  a_columns :: "string list"
  a_rows :: "agg_row list"

text \<open>
  \<^verbatim>\<open>df.groupby(["Category", "Brand", "Date"], as_index=False).agg(agg_dict)\<close>: one row per
  distinct key, in ascending order of the keys; the rows without a date belong to no group.
\<close>

definition group_keys :: "raw_row list \<Rightarrow> (string \<times> string \<times> int) list" where
  "group_keys df =
     sort (remdups (map (\<lambda>r. (r_Category r, r_Brand r, the (r_Date r)))
                        (filter (\<lambda>r. r_Date r \<noteq> None) df)))"

definition groupby_agg :: "string list \<Rightarrow> raw_row list \<Rightarrow> agg_table" where
  "groupby_agg cols df =
     \<lparr>a_columns = [''Brand'', ''Date''] @ [k \<leftarrow> map fst agg_dict. k \<in> set cols] @ [''Category''],
      a_rows =
        map (\<lambda>(c, b, d).
               let g = [r \<leftarrow> df. r_Category r = c \<and> r_Brand r = b \<and> r_Date r = Some d]
               in \<lparr>a_Category = c, a_Brand = b, a_Date = d,
                   a_num = (\<lambda>k. case map_of agg_dict k of
                                   None \<Rightarrow> None
                                 | Some h \<Rightarrow> if k \<in> set cols then aggregate h (cells k g) else None)\<rparr>)
            (group_keys df)\<rparr>"

subsection \<open>The stage\<close>

text \<open>
  The transformation of the table, and the stage on the two files it touches:
  \<^verbatim>\<open>preprocess_data\<close> raises when the raw file is missing, otherwise it writes the aggregated
  table to the processed file and returns it.
\<close>

definition preprocess :: "raw_table \<Rightarrow> agg_table" where
  "preprocess raw =
     (let df1 = handle_missing (r_columns raw) (r_rows raw);
          df2 = sort_values df1;
          df3 = encode_labels df2;
          df4 = feature_engineering df3;
          cols = r_columns raw @ [''Category_Encoded'', ''Brand_Encoded'', ''Region_Encoded'',
                                  ''Sales_Lag_1'', ''Sales_MA_3''];
          df5 = normalize_columns cols df4
      in groupby_agg cols df5)"

record files =
  RAW_DATA_FILE :: "raw_table option"
  PROCESSED_FILE :: "agg_table option"

definition preprocess_data :: "files \<Rightarrow> (error + agg_table) \<times> files" where
  "preprocess_data fs =
     (case RAW_DATA_FILE fs of
        None \<Rightarrow> (Inl FileNotFoundError, fs)
      | Some raw \<Rightarrow>
          let df_agg = preprocess raw
          in (Inr df_agg, fs\<lparr>PROCESSED_FILE := Some df_agg\<rparr>))"

section \<open>Example tables\<close>

text \<open>
  Brand \<open>A\<close> on three consecutive days. The cell of every other column is 0 on the first
  day, 1 on the second and missing on the third.
\<close>

definition three_days :: "fval sales_row list" where
  "three_days =
     [\<lparr>Date = 1, Brand = ''A'', Total_Sales = Fin 10, Online_Popularity = Fin 1,
       extra = (\<lambda>c. Fin 0)\<rparr>,
      \<lparr>Date = 2, Brand = ''A'', Total_Sales = Fin 20, Online_Popularity = Fin 2,
       extra = (\<lambda>c. Fin 1)\<rparr>,
      \<lparr>Date = 3, Brand = ''A'', Total_Sales = Fin 30, Online_Popularity = Fin 3,
       extra = (\<lambda>c. NaN)\<rparr>]"

text \<open>Brand \<open>A\<close> on two days, for the sequence forecaster.\<close>

definition two_days :: "real sales_row list" where
  "two_days =
     [\<lparr>Date = 1, Brand = ''A'', Total_Sales = 10, Online_Popularity = 1, extra = (\<lambda>c. 0)\<rparr>,
      \<lparr>Date = 2, Brand = ''A'', Total_Sales = 30, Online_Popularity = 1, extra = (\<lambda>c. 0)\<rparr>]"

text \<open>Brand \<open>A\<close> on \<open>n\<close> consecutive days, for the sequence forecaster.\<close>

definition consecutive_days :: "nat \<Rightarrow> real sales_row list" where
  "consecutive_days n =
     map (\<lambda>i. \<lparr>Date = int i, Brand = ''A'', Total_Sales = real i, Online_Popularity = 1,
               extra = (\<lambda>c. 0)\<rparr>) [0..<n]"

text \<open>
  Brand \<open>B\<close> with infinite sales on each of its three days, for the seasonal forecaster, and
  brand \<open>B\<close> with a single day, for the sequence forecaster.
\<close>

definition infinite_sales :: "fval sales_row list" where
  "infinite_sales =
     [\<lparr>Date = 1, Brand = ''B'', Total_Sales = PInf, Online_Popularity = Fin 1, extra = (\<lambda>c. Fin 0)\<rparr>,
      \<lparr>Date = 2, Brand = ''B'', Total_Sales = PInf, Online_Popularity = Fin 2, extra = (\<lambda>c. Fin 0)\<rparr>,
      \<lparr>Date = 3, Brand = ''B'', Total_Sales = NInf, Online_Popularity = Fin 3, extra = (\<lambda>c. Fin 0)\<rparr>]"

definition one_day :: "real sales_row list" where
  "one_day =
     [\<lparr>Date = 1, Brand = ''B'', Total_Sales = 5, Online_Popularity = 1, extra = (\<lambda>c. 0)\<rparr>]"

text \<open>
  Three raw rows of brand \<open>A\<close>; every numeric cell is 0 in the first row, 1 in the second
  and 2 in the third.
\<close>

definition three_raw_rows :: "raw_row list" where
  "three_raw_rows =
     [\<lparr>r_Date = Some 1, r_Category = ''C'', r_Brand = ''A'', r_Region = ''R'', num = (\<lambda>c. Some 0)\<rparr>,
      \<lparr>r_Date = Some 2, r_Category = ''C'', r_Brand = ''A'', r_Region = ''R'', num = (\<lambda>c. Some 1)\<rparr>,
      \<lparr>r_Date = Some 3, r_Category = ''C'', r_Brand = ''A'', r_Region = ''R'', num = (\<lambda>c. Some 2)\<rparr>]"

text \<open>
  Brand \<open>A\<close> on ten consecutive days, for the seasonal forecaster. The cell of every other
  column alternates between 1 and 0 and is missing on the tenth day.
\<close>

definition ten_days :: "fval sales_row list" where
  "ten_days =
     map (\<lambda>i. \<lparr>Date = int i, Brand = ''A'', Total_Sales = Fin (real i),
               Online_Popularity = Fin (real i),
               extra = (\<lambda>c. if i = 10 then NaN else Fin (real (i mod 2)))\<rparr>) [1..<11]"

text \<open>
  Brand \<open>H\<close> on the same ten days, with no missing cell: the cell of every other column
  alternates between 1 and 0.
\<close>

definition healthy_days :: "fval sales_row list" where
  "healthy_days =
     map (\<lambda>i. \<lparr>Date = int i, Brand = ''H'', Total_Sales = Fin (real i),
               Online_Popularity = Fin (real i),
               extra = (\<lambda>c. Fin (real (i mod 2)))\<rparr>) [1..<11]"

section \<open>Basic facts\<close>

lemma train_size_div: "train_size n = (4 * n) div 5"
proof -
  have "real n * 0.8 = real (4 * n) / real 5" by simp
  then have "\<lfloor>real n * 0.8\<rfloor> = int ((4 * n) div 5)"
    by (simp only: floor_divide_of_nat_eq)
  then show ?thesis by (simp add: train_size_def)
qed

lemma train_size_le: "train_size n \<le> n"
  by (simp add: train_size_div)

lemma split_80_20_append:
  "split_80_20 xs = (a, b) \<Longrightarrow> a @ b = xs \<and> length a = train_size (length xs)"
  using train_size_le[of "length xs"] by (auto simp: split_80_20_def)

lemma sorted_dates: "sorted_wrt (<) (sort (remdups (dates :: int list)))"
  by (simp add: strict_sorted_iff)

lemma sorted_split:
  assumes "sorted_wrt (<) (map f (a @ b))"
  shows "\<forall>u\<in>set a. \<forall>v\<in>set b. f u < f v"
  using assms by (auto simp: sorted_wrt_append)

subsection \<open>The frame of the seasonal forecaster\<close>

lemma make_prophet_df_ds:
  "map ds (make_prophet_df cols brand_df) = sort (remdups (map Date brand_df))"
  by (simp add: make_prophet_df_def Let_def comp_def)

lemma clean_keeps_order:
  assumes s: "sorted_wrt (<) (map ds frame)"
  shows "sorted_wrt (<) (map ds (clean frame))"
proof -
  have m: "map ds (map (\<lambda>r. r\<lparr>y := replace_inf (y r), x := (\<lambda>c. replace_inf (x r c))\<rparr>) frame)
             = map ds frame"
    by (simp add: comp_def)
  have f: "sorted_wrt (<) (map ds (filter P fr))"
    if "sorted_wrt (<) (map ds fr)" for P and fr :: "prophet_row list"
    using that by (induction fr) auto
  show ?thesis unfolding clean_def Let_def
    by (intro f) (simp only: m s)
qed

lemma prophet_df_sorted: "sorted_wrt (<) (map ds (clean (make_prophet_df cols brand_df)))"
  by (rule clean_keeps_order) (simp add: make_prophet_df_ds sorted_dates)

lemma nunique_card: "nunique col frame = card ((\<lambda>r. x r col) ` set frame - {NaN})"
proof -
  have "set [v \<leftarrow> map (\<lambda>r. x r col) frame. v \<noteq> NaN] = (\<lambda>r. x r col) ` set frame - {NaN}"
    by auto
  then show ?thesis
    by (simp add: nunique_def length_remdups_card_conv del: set_filter set_map)
qed

lemma sort_three_days: "sort_key Date three_days = three_days"
  by (simp add: three_days_def)

lemma ds_three_days: "map ds (clean (make_prophet_df cols three_days)) = [1, 2, 3]"
  by (simp add: three_days_def make_prophet_df_def clean_def Let_def group_sum_def replace_inf_def)

lemma split_three_days:
  "map ds (fst (split_80_20 (clean (make_prophet_df cols three_days)))) = [1, 2]"
  "map ds (snd (split_80_20 (clean (make_prophet_df cols three_days)))) = [3]"
proof -
  have "length (map ds (clean (make_prophet_df cols three_days))) = 3"
    by (simp only: ds_three_days) simp
  then have l: "length (clean (make_prophet_df cols three_days)) = 3" by simp
  show "map ds (fst (split_80_20 (clean (make_prophet_df cols three_days)))) = [1, 2]"
    "map ds (snd (split_80_20 (clean (make_prophet_df cols three_days)))) = [3]"
    using ds_three_days[of cols]
    by (simp_all add: split_80_20_def train_size_div l take_map[symmetric] drop_map[symmetric]
          del: take_map drop_map)
qed

lemma groupby_three_days: "groupby_Brand three_days = [(''A'', three_days)]"
  by (simp add: groupby_Brand_def three_days_def)

subsection \<open>The scaler and the windows of the sequence forecaster\<close>

lemma handle_zeros_pos: "0 < handle_zeros_in_scale s"
proof -
  have "(0::real) < 10 * float_eps" by (simp add: float_eps_def)
  then show ?thesis by (auto simp: handle_zeros_in_scale_def)
qed

lemma fit_scale_nonzero: "j < length (hd X) \<Longrightarrow> sc_scale (fit X) ! j \<noteq> 0"
  using handle_zeros_pos by (simp add: fit_def Let_def less_imp_neq[THEN not_sym])

lemma round_trip_rect:
  assumes "\<forall>r \<in> set X. length r = length (hd X)"
  shows "inverse_transform (fit X) (transform (fit X) X) = X"
proof -
  have "map (\<lambda>j. (map (\<lambda>j. r ! j * sc_scale (fit X) ! j + sc_min (fit X) ! j) [0..<length r] ! j
            - sc_min (fit X) ! j) / sc_scale (fit X) ! j) [0..<length r] = r"
    if "r \<in> set X" for r
    using that assms fit_scale_nonzero[of _ X] by (auto intro!: nth_equalityI)
  then show ?thesis
    by (simp add: inverse_transform_def transform_def map_idI)
qed

lemma agg_by_Date_rect:
  "r \<in> set (map snd (agg_by_Date cols brand_df)) \<Longrightarrow> length r = 2 + length (features_of cols)"
  by (auto simp: agg_by_Date_def Let_def)

lemma agg_by_Date_dates: "map fst (agg_by_Date cols brand_df) = sort (remdups (map Date brand_df))"
  by (simp add: agg_by_Date_def Let_def comp_def)

lemma length_transform: "length (transform s X) = length X"
  by (simp add: transform_def)

lemma agg_two_days: "agg_by_Date [] two_days = [(1, [10, 1]), (2, [30, 1])]"
  by (simp add: agg_by_Date_def two_days_def features_of_def mean_def)

lemma fit_two_days: "fit [[10, 1], [30, 1]] = \<lparr>sc_scale = [1/20, 1], sc_min = [-1/2, -1]\<rparr>"
  by (simp add: fit_def column_def handle_zeros_in_scale_def float_eps_def Let_def upt_conv_Cons)

lemma map_upt_shift: "map f [k..<n] = map (\<lambda>i. f (i + k)) [0..<n - k]"
proof (cases "k \<le> n")
  case True
  then have "[k..<n] = map (\<lambda>i. i + k) [0..<n - k]"
    using map_add_upt[of k "n - k"] by simp
  then have "map f [k..<n] = map f (map (\<lambda>i. i + k) [0..<n - k])" by simp
  then show ?thesis by (simp add: comp_def)
next
  case False
  then show ?thesis by simp
qed

lemma take_make_X:
  assumes "k \<le> length (make_X scaled)"
  shows "take k (make_X scaled) = make_X (take (k + seq_length) scaled)"
proof -
  from assms have k: "k \<le> length scaled - seq_length" by (simp add: make_X_def)
  have l: "take k (make_X scaled) = map (\<lambda>i. take seq_length (drop i scaled)) [0..<k]"
    using k by (simp add: make_X_def take_map)
  have n: "length (take (k + seq_length) scaled) - seq_length = k"
    using k by (auto simp: min_def)
  have "take seq_length (drop i (take (k + seq_length) scaled)) = take seq_length (drop i scaled)"
    if "i < k" for i
    using that by (simp add: drop_take min_def)
  then have "make_X (take (k + seq_length) scaled)
               = map (\<lambda>i. take seq_length (drop i scaled)) [0..<k]"
    unfolding make_X_def n by (intro map_cong) auto
  with l show ?thesis by simp
qed

lemma drop_make_X: "drop k (make_X scaled) = make_X (drop k scaled)"
proof -
  have "drop k (make_X scaled)
          = map (\<lambda>i. take seq_length (drop i scaled)) [k..<length scaled - seq_length]"
    by (simp add: make_X_def drop_map)
  also have "\<dots> = map (\<lambda>i. take seq_length (drop (i + k) scaled)) [0..<length scaled - seq_length - k]"
    by (rule map_upt_shift)
  also have "\<dots> = make_X (drop k scaled)"
    by (simp add: make_X_def add.commute diff_commute)
  finally show ?thesis .
qed

lemma take_make_y:
  assumes "k \<le> length (make_y scaled)"
  shows "take k (make_y scaled) = make_y (take (k + seq_length) scaled)"
proof -
  from assms have k: "k \<le> length scaled - seq_length" by (simp add: make_y_def)
  have l: "take k (make_y scaled) = map (\<lambda>i. scaled ! (i + seq_length) ! 0) [0..<k]"
    using k by (simp add: make_y_def take_map)
  have n: "length (take (k + seq_length) scaled) - seq_length = k"
    using k by (auto simp: min_def)
  have "make_y (take (k + seq_length) scaled) = map (\<lambda>i. scaled ! (i + seq_length) ! 0) [0..<k]"
    unfolding make_y_def n by (intro map_cong) auto
  with l show ?thesis by simp
qed

lemma drop_make_y: "drop k (make_y scaled) = make_y (drop k scaled)"
proof -
  have le: "k + (i + seq_length) \<le> length scaled" if "i < length scaled - seq_length - k" for i
    using that by simp
  have "drop k (make_y scaled)
          = map (\<lambda>i. scaled ! (i + seq_length) ! 0) [k..<length scaled - seq_length]"
    by (simp add: make_y_def drop_map)
  also have "\<dots> = map (\<lambda>i. scaled ! (i + k + seq_length) ! 0) [0..<length scaled - seq_length - k]"
    by (rule map_upt_shift)
  also have "\<dots> = make_y (drop k scaled)"
    unfolding make_y_def using le
    by (intro map_cong) (auto simp: diff_commute add.commute add.left_commute)
  finally show ?thesis .
qed

lemma rollout_appends:
  "rollout forward n (scaled, ls, fut) = (scaled', ls', fut') \<Longrightarrow>
   \<exists>new. scaled' = scaled @ new \<and> fut' = fut @ new \<and> length new = n \<and>
     (\<forall>row \<in> set new. tl row = tl (last scaled))"
proof (induction n arbitrary: scaled ls fut)
  case 0
  then show ?case by simp
next
  case (Suc n)
  let ?next = "forward ls # tl (last scaled)"
  from Suc.prems have r:
    "rollout forward n (scaled @ [?next], last_n seq_length (scaled @ [?next]), fut @ [?next])
       = (scaled', ls', fut')"
    by (simp add: Let_def)
  from Suc.IH[OF r] obtain new where
    n: "scaled' = (scaled @ [?next]) @ new" "fut' = (fut @ [?next]) @ new" "length new = n"
       "\<forall>row \<in> set new. tl row = tl (last (scaled @ [?next]))" by auto
  show ?case
    by (rule exI[of _ "?next # new"]) (use n in auto)
qed

lemma train_size_floor: "train_size n = nat \<lfloor>0.8 * real n\<rfloor>"
  by (simp add: train_size_def mult.commute)

lemma split_80_20_fst: "fst (split_80_20 xs) = take (train_size (length xs)) xs"
  and split_80_20_snd: "snd (split_80_20 xs) = drop (train_size (length xs)) xs"
  by (simp_all add: split_80_20_def)

lemma length_make_X: "length (make_X scaled) = length scaled - seq_length"
  by (simp add: make_X_def)

lemma length_make_y: "length (make_y scaled) = length scaled - seq_length"
  by (simp add: make_y_def)

lemma sort_remdups_upt: "sort (remdups (map int [0..<n])) = map int [0..<n]"
proof -
  have d: "distinct (map int [0..<n])" by (simp add: distinct_map)
  have s: "sorted (map int [0..<n])" by (simp add: sorted_map)
  from d s show ?thesis by (simp add: distinct_remdups_id sorted_sort_id)
qed

lemma dates_consecutive_days: "map Date (consecutive_days n) = map int [0..<n]"
  by (simp add: consecutive_days_def comp_def)

lemma sort_consecutive_days: "sort_key Date (consecutive_days n) = consecutive_days n"
proof -
  have "sorted (map Date (consecutive_days n))"
    unfolding dates_consecutive_days by (simp add: sorted_map)
  then show ?thesis by (rule sort_key_id_if_sorted)
qed

lemma length_agg_consecutive_days: "length (agg_by_Date cols (consecutive_days n)) = n"
proof -
  have "length (map fst (agg_by_Date cols (consecutive_days n))) = n"
    unfolding agg_by_Date_dates dates_consecutive_days sort_remdups_upt by simp
  then show ?thesis by simp
qed

subsection \<open>One brand in the sequence forecaster\<close>

lemma rollout_future_length: "length (snd (snd (rollout forward n (scaled, ls, [])))) = n"
proof -
  obtain a b c where r: "rollout forward n (scaled, ls, []) = (a, b, c)" by (metis prod_cases3)
  from rollout_appends[OF r] show ?thesis by (auto simp: r)
qed

lemma length_inverse_transform: "length (inverse_transform s X) = length X"
  by (simp add: inverse_transform_def)

lemma map2_dates: "length vs = length dates \<Longrightarrow>
  map f_Date (map2 (\<lambda>d v. \<lparr>f_Date = d, f_Brand = b, Predicted_Sales = v\<rparr>) dates vs) = dates"
  by (induction dates vs rule: list_induct2') auto

lemma map2_brand: "r \<in> set (map2 (\<lambda>d v. \<lparr>f_Date = d, f_Brand = b, Predicted_Sales = v\<rparr>) dates vs)
   \<Longrightarrow> f_Brand r = b"
  by (induction dates vs rule: list_induct2') auto

lemma lstm_brand_unfold:
  fixes train_model forward cols brand brand_df
  defines "df \<equiv> agg_by_Date cols (sort_key Date brand_df)"
  defines "scaled \<equiv> transform (fit (map snd df)) (map snd df)"
  defines "model \<equiv> train_model (fst (split_80_20 (make_X scaled))) (fst (split_80_20 (make_y scaled)))"
  defines "future_scaled \<equiv>
     snd (snd (rollout (forward model) 30 (scaled, last_n seq_length scaled, [])))"
  defines "future_sales \<equiv> map hd (inverse_transform (fit (map snd df))
     (map2 (\<lambda>r f. hd r # f) future_scaled (replicate 30 (tl (snd (last df))))))"
  defines "future_dates \<equiv> map (\<lambda>i. Max (set (map fst df)) + 1 + int i) [0..<30]"
  shows "lstm_brand train_model forward cols brand brand_df =
    (if length df < seq_length + 1 then Inr None
     else if length (make_X scaled) < 20 then Inr None
     else Inr (Some (\<lparr>m_Brand = brand,
            RMSE = rmse_of (snd (split_80_20 (make_y scaled)))
                     (map (forward model) (snd (split_80_20 (make_X scaled)))),
            MAPE = mape_of (snd (split_80_20 (make_y scaled)))
                     (map (forward model) (snd (split_80_20 (make_X scaled))))\<rparr>,
          map2 (\<lambda>d v. \<lparr>f_Date = d, f_Brand = brand, Predicted_Sales = v\<rparr>)
               future_dates future_sales)))"
  unfolding lstm_brand_def Let_def case_prod_beta fit_transform_def fst_conv snd_conv assms
  by (rule refl)

lemma map2_proj:
  assumes "\<And>d v. g (h d v) = d" and "length vs = length dates"
  shows "map g (map2 h dates vs) = dates"
  using assms(2) by (induction dates vs rule: list_induct2') (auto simp: assms(1))

lemma map2_all:
  assumes "\<And>d v. P (h d v)"
  shows "\<forall>r \<in> set (map2 h dates vs). P r"
  by (induction dates vs rule: list_induct2') (auto simp: assms)

lemma lstm_brand_Some:
  assumes "lstm_brand train_model forward cols brand brand_df = Inr (Some (m, fc))"
  shows "27 \<le> length (agg_by_Date cols (sort_key Date brand_df)) \<and> m_Brand m = brand \<and>
         (\<forall>r \<in> set fc. f_Brand r = brand) \<and>
         map f_Date fc = map (\<lambda>i. Max (set (map fst (agg_by_Date cols (sort_key Date brand_df)))) + 1 + int i) [0..<30]"
proof -
  let ?df = "agg_by_Date cols (sort_key Date brand_df)"
  let ?dates = "map (\<lambda>i. Max (set (map fst ?df)) + 1 + int i) [0..<30]"
  note u = lstm_brand_unfold[of train_model forward cols brand brand_df]
  have lx: "length (make_X (transform (fit (map snd ?df)) (map snd ?df))) = length ?df - 7"
    by (simp add: length_make_X length_transform seq_length_def)
  from assms have n: "27 \<le> length ?df"
    unfolding u lx by (simp add: seq_length_def split: if_splits)
  from assms obtain sales where
    m: "m_Brand m = brand" and
    fc: "fc = map2 (\<lambda>d v. \<lparr>f_Date = d, f_Brand = brand, Predicted_Sales = v\<rparr>) ?dates sales" and
    sales: "length sales = 30"
    unfolding u
    by (auto simp: length_inverse_transform rollout_future_length split: if_splits)
  have b: "\<forall>r \<in> set fc. f_Brand r = brand" unfolding fc by (rule map2_all) simp
  have d: "map f_Date fc = ?dates" unfolding fc by (rule map2_proj) (simp_all add: sales)
  from n m b d show ?thesis by blast
qed

lemma lstm_brand_None:
  "length (agg_by_Date cols (sort_key Date brand_df)) < 27 \<Longrightarrow>
   lstm_brand train_model forward cols brand brand_df = Inr None"
  unfolding lstm_brand_unfold
  by (auto simp: length_make_X length_transform seq_length_def)

lemma lstm_brand_ex_Some:
  "27 \<le> length (agg_by_Date cols (sort_key Date brand_df)) \<Longrightarrow>
   \<exists>m fc. lstm_brand train_model forward cols brand brand_df = Inr (Some (m, fc))"
  unfolding lstm_brand_unfold
  by (auto simp: length_make_X length_transform seq_length_def)

subsection \<open>One brand in the seasonal forecaster\<close>

lemma prophet_brand_unfold:
  fixes fit_model predict_row cols brand brand_df
  defines "pdf \<equiv> clean (make_prophet_df cols (sort_key Date brand_df))"
  defines "train \<equiv> fst (split_80_20 pdf)"
  defines "test \<equiv> snd (split_80_20 pdf)"
  defines "regs \<equiv> regressors_to_use cols train"
  defines "model \<equiv> fit_model train regs"
  defines "future \<equiv> fold (\<lambda>reg fr. ffill reg NaN fr) regs
                      (merge_left (make_future_dataframe train 30) pdf)"
  shows "prophet_brand fit_model predict_row cols brand brand_df =
    (if length pdf < 3 then Inr None
     else if length train < 2 \<or> isnull_any cols train then Inr None
     else if test = [] then Inr None
     else case predict predict_row model regs (map (\<lambda>r. (ds r, x r)) test) of
            Inl e \<Rightarrow> Inl e
          | Inr forecast_test \<Rightarrow>
              (case predict predict_row model regs future of
                 Inl e \<Rightarrow> Inl e
               | Inr forecast \<Rightarrow>
                   Inr (Some (\<lparr>m_Brand = brand,
                          RMSE = rmse_of (map (\<lambda>r. the_Fin (y r)) test)
                                   (map (\<lambda>(d, v, lo, hi). v) forecast_test),
                          MAPE = mape_of (map (\<lambda>r. the_Fin (y r)) test)
                                   (map (\<lambda>(d, v, lo, hi). v) forecast_test)\<rparr>,
                        map (\<lambda>(d, v, lo, hi).
                               \<lparr>p_Date = d, p_Brand = brand, p_Predicted_Sales = v,
                                Predicted_Sales_Lower = lo, Predicted_Sales_Upper = hi\<rparr>)
                            forecast))))"
  unfolding prophet_brand_def Let_def assms
  by (simp add: case_prod_beta)

lemma ffill_dates: "map fst (ffill reg prev frame) = map fst frame"
  by (induction reg prev frame rule: ffill.induct) auto

lemma fold_ffill_dates: "map fst (fold (\<lambda>reg fr. ffill reg NaN fr) regs frame) = map fst frame"
  by (induction regs arbitrary: frame) (simp_all add: ffill_dates)

lemma filter_distinct_key:
  "distinct (map f xs) \<Longrightarrow> filter (\<lambda>r. f r = d) xs = [] \<or> (\<exists>r. filter (\<lambda>r. f r = d) xs = [r])"
proof (induction xs)
  case Nil
  then show ?case by simp
next
  case (Cons a xs)
  show ?case
  proof (cases "f a = d")
    case True
    with Cons.prems have "filter (\<lambda>r. f r = d) xs = []"
      by (auto simp: filter_empty_conv image_iff)
    with True show ?thesis by simp
  next
    case False
    with Cons show ?thesis by simp
  qed
qed

lemma merge_left_dates:
  assumes "distinct (map ds prophet_df)"
  shows "map fst (merge_left future prophet_df) = future"
proof (induction future)
  case Nil
  then show ?case by (simp add: merge_left_def)
next
  case (Cons d future)
  from filter_distinct_key[OF assms, of d]
  have "map fst (case filter (\<lambda>r. ds r = d) prophet_df of
                   [] \<Rightarrow> [(d, (\<lambda>c. NaN))] | ms \<Rightarrow> map (\<lambda>r. (d, x r)) ms) = [d]"
    by (auto split: list.splits)
  with Cons show ?case by (simp add: merge_left_def)
qed

lemma predict_dates:
  "predict predict_row model regs frame = Inr out \<Longrightarrow> map fst out = map fst frame"
  by (auto simp: predict_def case_prod_beta comp_def split: if_splits)

lemma sorted_wrt_less_distinct: "sorted_wrt (<) (xs :: int list) \<Longrightarrow> distinct xs"
  by (simp add: strict_sorted_iff)

lemma prophet_df_distinct: "distinct (map ds (clean (make_prophet_df cols brand_df)))"
  by (rule sorted_wrt_less_distinct) (rule prophet_df_sorted)

lemma Max_sorted_last: "sorted (xs :: int list) \<Longrightarrow> xs \<noteq> [] \<Longrightarrow> Max (set xs) = last xs"
proof (induction xs)
  case Nil
  then show ?case by simp
next
  case (Cons a xs)
  show ?case
  proof (cases "xs = []")
    case True
    then show ?thesis by simp
  next
    case False
    with Cons have ih: "Max (set xs) = last xs" by simp
    from False have "last xs \<in> set xs" by simp
    with Cons.prems have "a \<le> last xs" by auto
    with False ih show ?thesis by (simp add: max_def)
  qed
qed

lemma make_future_dataframe_sorted:
  assumes "sorted_wrt (<) (map ds history)" and "history \<noteq> []"
  shows "make_future_dataframe history periods
           = map ds history @ map (\<lambda>i. ds (last history) + 1 + int i) [0..<periods]"
proof -
  from assms(1) have "sorted (map ds history)" "distinct (map ds history)"
    by (simp_all add: strict_sorted_iff)
  then have h: "sort (remdups (map ds history)) = map ds history"
    by (simp add: distinct_remdups_id sorted_sort_id)
  have "Max (set (map ds history)) = last (map ds history)"
    using \<open>sorted (map ds history)\<close> assms(2) by (intro Max_sorted_last) simp_all
  then have m: "Max (set (map ds history)) = ds (last history)"
    using assms(2) by (simp add: last_map)
  show ?thesis unfolding make_future_dataframe_def Let_def h m ..
qed

lemma prophet_brand_Some:
  assumes "prophet_brand fit_model predict_row cols brand brand_df = Inr (Some (m, fc))"
  shows "m_Brand m = brand \<and> (\<forall>r \<in> set fc. p_Brand r = brand) \<and>
         3 \<le> length (clean (make_prophet_df cols (sort_key Date brand_df))) \<and>
         map p_Date fc =
           map ds (fst (split_80_20 (clean (make_prophet_df cols (sort_key Date brand_df))))) @
           map (\<lambda>i. ds (last (fst (split_80_20 (clean (make_prophet_df cols (sort_key Date brand_df))))))
                      + 1 + int i) [0..<30]"
proof -
  let ?pdf = "clean (make_prophet_df cols (sort_key Date brand_df))"
  let ?train = "fst (split_80_20 ?pdf)"
  let ?regs = "regressors_to_use cols ?train"
  let ?future = "fold (\<lambda>reg fr. ffill reg NaN fr) ?regs (merge_left (make_future_dataframe ?train 30) ?pdf)"
  note u = prophet_brand_unfold[of fit_model predict_row cols brand brand_df]
  from assms obtain forecast where
    n: "3 \<le> length ?pdf" and t: "2 \<le> length ?train" and
    p: "predict predict_row (fit_model ?train ?regs) ?regs ?future = Inr forecast" and
    m: "m_Brand m = brand" and
    fc: "fc = map (\<lambda>(d, v, lo, hi).
                     \<lparr>p_Date = d, p_Brand = brand, p_Predicted_Sales = v,
                      Predicted_Sales_Lower = lo, Predicted_Sales_Upper = hi\<rparr>) forecast"
    unfolding u by (auto split: if_splits sum.splits)
  have b: "\<forall>r \<in> set fc. p_Brand r = brand" unfolding fc by auto
  have "sorted_wrt (<) (map ds (?train @ snd (split_80_20 ?pdf)))"
    using prophet_df_sorted[of cols "sort_key Date brand_df"] by (simp add: split_80_20_def)
  then have st: "sorted_wrt (<) (map ds ?train)" by (simp add: sorted_wrt_append)
  from t have ne: "?train \<noteq> []" by auto
  have "map p_Date fc = map fst forecast" unfolding fc by (simp add: case_prod_beta comp_def)
  also have "\<dots> = map fst ?future" using p by (rule predict_dates)
  also have "\<dots> = make_future_dataframe ?train 30"
    by (simp only: fold_ffill_dates merge_left_dates[OF prophet_df_distinct])
  also have "\<dots> = map ds ?train @ map (\<lambda>i. ds (last ?train) + 1 + int i) [0..<30]"
    by (rule make_future_dataframe_sorted[OF st ne])
  finally have d: "map p_Date fc = map ds ?train @ map (\<lambda>i. ds (last ?train) + 1 + int i) [0..<30]" .
  from m b n d show ?thesis by blast
qed

lemma prophet_brand_error: "prophet_brand fit_model predict_row cols brand brand_df = Inl e \<Longrightarrow> e = ValueError"
  unfolding prophet_brand_unfold
  by (auto simp: predict_def split: if_splits sum.splits)

subsection \<open>The loop over the brands\<close>

lemma brand_loop_brands:
  assumes "\<And>b g m f. (b, g) \<in> set groups \<Longrightarrow> body b g = Inr (Some (m, f)) \<Longrightarrow>
             m_Brand m = b \<and> f \<noteq> [] \<and> (\<forall>r \<in> set f. brand_of r = b)"
    and "brand_loop body groups (fcs, ms) = Inr (fcs', ms')"
    and "brand_of ` set (concat fcs) = m_Brand ` set ms"
  shows "brand_of ` set (concat fcs') = m_Brand ` set ms'"
  using assms
proof (induction groups arbitrary: fcs ms)
  case Nil
  then show ?case by simp
next
  case (Cons g groups)
  obtain b rs where g: "g = (b, rs)" by (cases g)
  from Cons.prems(2) have ne: "body b rs \<noteq> Inl e" for e by (auto simp: g)
  have pr: "m_Brand m = b' \<and> f \<noteq> [] \<and> (\<forall>r \<in> set f. brand_of r = b')"
    if "(b', g') \<in> set groups" "body b' g' = Inr (Some (m, f))" for b' g' m f
    using Cons.prems(1)[of b' g' m f] that by simp
  show ?case
  proof (cases "body b rs")
    case (Inl e)
    with ne show ?thesis by blast
  next
    case (Inr res)
    show ?thesis
    proof (cases res)
      case None
      with Inr Cons.prems(2) have "brand_loop body groups (fcs, ms) = Inr (fcs', ms')"
        by (simp add: g)
      from Cons.IH[OF pr this Cons.prems(3)] show ?thesis .
    next
      case (Some mf)
      obtain m f where mf: "mf = (m, f)" by (cases mf)
      from Cons.prems(1)[of b rs m f] Inr Some mf g
      have p: "m_Brand m = b" "f \<noteq> []" "\<forall>r \<in> set f. brand_of r = b" by auto
      from p(2) p(3) have "brand_of ` set f = {b}" by (cases f) auto
      with p(1) Cons.prems(3)
      have i: "brand_of ` set (concat (fcs @ [f])) = m_Brand ` set (ms @ [m])"
        by (simp add: image_Un Un_commute)
      from Inr Some mf Cons.prems(2)
      have "brand_loop body groups (fcs @ [f], ms @ [m]) = Inr (fcs', ms')" by (simp add: g)
      from Cons.IH[OF pr this i] show ?thesis .
    qed
  qed
qed

lemma groupby_Brand_single:
  assumes "df \<noteq> []" and "\<forall>r \<in> set df. Brand r = b"
  shows "groupby_Brand df = [(b, df)]"
proof -
  from assms have s: "set (remdups (map Brand df)) = {b}" by (cases df) auto
  have "remdups (map Brand df) = [b]"
  proof (cases "remdups (map Brand df)")
    case Nil
    with s show ?thesis by simp
  next
    case (Cons a as)
    have d: "distinct (a # as)" using distinct_remdups[of "map Brand df"] Cons by simp
    from s Cons have "set (a # as) = {b}" by simp
    with d have "a = b" "as = []" by (cases as; auto)+
    with Cons show ?thesis by simp
  qed
  moreover from assms(2) have "filter (\<lambda>r. Brand r = b) df = df" by (simp add: filter_id_conv)
  ultimately show ?thesis by (simp add: groupby_Brand_def)
qed

lemma groupby_consecutive_days:
  "0 < n \<Longrightarrow> groupby_Brand (consecutive_days n) = [(''A'', consecutive_days n)]"
  by (rule groupby_Brand_single) (auto simp: consecutive_days_def)

lemma lstm_run_consecutive_days:
  assumes "27 \<le> n"
  shows "\<exists>fc ms. run_lstm_forecast train_model forward
            (Some \<lparr>columns = cols, rows = consecutive_days n\<rparr>) = Inr (Some (fc, ms))"
proof -
  from assms have n: "0 < n" by simp
  from assms have "27 \<le> length (agg_by_Date cols (sort_key Date (consecutive_days n)))"
    by (simp add: sort_consecutive_days length_agg_consecutive_days)
  from lstm_brand_ex_Some[OF this] obtain m f where
    "lstm_brand train_model forward cols ''A'' (consecutive_days n) = Inr (Some (m, f))" by blast
  then show ?thesis
    by (simp add: run_lstm_forecast_def groupby_consecutive_days[OF n])
qed

subsection \<open>Runs on the example tables\<close>

lemma prophet_run_three_days:
  "\<exists>fc ms. forecast_with_prophet fit_model predict_row (Some \<lparr>columns = [], rows = three_days\<rparr>)
      = Inr (Some (fc, ms)) \<and>
     map p_Date fc = [1, 2] @ map int [3..<33] \<and> map m_Brand ms = [''A'']"
  apply (simp add: forecast_with_prophet_def groupby_three_days prophet_brand_def sort_three_days)
  apply (simp add: three_days_def make_prophet_df_def clean_def Let_def group_sum_def
      group_mean_def replace_inf_def split_80_20_def train_size_div isnull_any_def
      used_regressors_def extra_regressors_def regressors_to_use_def nunique_def predict_def
      make_future_dataframe_def merge_left_def upt_conv_Cons case_prod_beta)
  done

lemma ten_days_rows: "ten_days = 
  [\<lparr>Date = 1, Brand = ''A'', Total_Sales = Fin 1, Online_Popularity = Fin 1, extra = (\<lambda>c. Fin 1)\<rparr>,
   \<lparr>Date = 2, Brand = ''A'', Total_Sales = Fin 2, Online_Popularity = Fin 2, extra = (\<lambda>c. Fin 0)\<rparr>,
   \<lparr>Date = 3, Brand = ''A'', Total_Sales = Fin 3, Online_Popularity = Fin 3, extra = (\<lambda>c. Fin 1)\<rparr>,
   \<lparr>Date = 4, Brand = ''A'', Total_Sales = Fin 4, Online_Popularity = Fin 4, extra = (\<lambda>c. Fin 0)\<rparr>,
   \<lparr>Date = 5, Brand = ''A'', Total_Sales = Fin 5, Online_Popularity = Fin 5, extra = (\<lambda>c. Fin 1)\<rparr>,
   \<lparr>Date = 6, Brand = ''A'', Total_Sales = Fin 6, Online_Popularity = Fin 6, extra = (\<lambda>c. Fin 0)\<rparr>,
   \<lparr>Date = 7, Brand = ''A'', Total_Sales = Fin 7, Online_Popularity = Fin 7, extra = (\<lambda>c. Fin 1)\<rparr>,
   \<lparr>Date = 8, Brand = ''A'', Total_Sales = Fin 8, Online_Popularity = Fin 8, extra = (\<lambda>c. Fin 0)\<rparr>,
   \<lparr>Date = 9, Brand = ''A'', Total_Sales = Fin 9, Online_Popularity = Fin 9, extra = (\<lambda>c. Fin 1)\<rparr>,
   \<lparr>Date = 10, Brand = ''A'', Total_Sales = Fin 10, Online_Popularity = Fin 10, extra = (\<lambda>c. NaN)\<rparr>]"
  by (simp add: ten_days_def upt_conv_Cons)

lemma groupby_ten_days: "groupby_Brand ten_days = [(''A'', ten_days)]"
  by (rule groupby_Brand_single) (auto simp: ten_days_def)

lemma sort_ten_days: "sort_key Date ten_days = ten_days"
  by (rule sort_key_id_if_sorted) (simp add: ten_days_rows)

lemma prophet_run_ten_days:
  "\<exists>fc ms. forecast_with_prophet fit_model predict_row (Some \<lparr>columns = [], rows = ten_days\<rparr>)
      = Inr (Some (fc, ms)) \<and> map p_Date fc = map int [1..<39] \<and> map m_Brand ms = [''A'']"
  apply (simp add: forecast_with_prophet_def groupby_ten_days prophet_brand_def sort_ten_days)
  apply (simp add: ten_days_rows make_prophet_df_def clean_def Let_def group_sum_def
      group_mean_def replace_inf_def split_80_20_def train_size_div isnull_any_def
      used_regressors_def extra_regressors_def regressors_to_use_def nunique_def predict_def
      make_future_dataframe_def merge_left_def upt_conv_Cons case_prod_beta)
  done

lemma prophet_run_ten_days_missing:
  "forecast_with_prophet fit_model predict_row (Some \<lparr>columns = [''Promotion''], rows = ten_days\<rparr>)
     = Inl ValueError"
  apply (simp add: forecast_with_prophet_def groupby_ten_days prophet_brand_def sort_ten_days)
  apply (simp add: ten_days_rows make_prophet_df_def clean_def Let_def group_sum_def
      group_mean_def replace_inf_def split_80_20_def train_size_div isnull_any_def
      used_regressors_def extra_regressors_def regressors_to_use_def nunique_def predict_def)
  done

lemma ten_days_guard:
  "\<not> isnull_any [''Promotion'']
       (fst (split_80_20 (clean (make_prophet_df [''Promotion''] (sort_key Date ten_days)))))"
  unfolding sort_ten_days
  by (simp add: ten_days_rows make_prophet_df_def clean_def Let_def group_sum_def
        group_mean_def replace_inf_def split_80_20_def train_size_div isnull_any_def
        used_regressors_def extra_regressors_def)

lemma ten_days_holdout:
  "map (\<lambda>r. x r ''Promotion'')
       (snd (split_80_20 (clean (make_prophet_df [''Promotion''] (sort_key Date ten_days)))))
     = [Fin 1, NaN]"
  unfolding sort_ten_days
  by (simp add: ten_days_rows make_prophet_df_def clean_def Let_def group_sum_def
        group_mean_def replace_inf_def split_80_20_def train_size_div
        used_regressors_def extra_regressors_def)

lemma healthy_days_rows: "healthy_days =
  [\<lparr>Date = 1, Brand = ''H'', Total_Sales = Fin 1, Online_Popularity = Fin 1, extra = (\<lambda>c. Fin 1)\<rparr>,
   \<lparr>Date = 2, Brand = ''H'', Total_Sales = Fin 2, Online_Popularity = Fin 2, extra = (\<lambda>c. Fin 0)\<rparr>,
   \<lparr>Date = 3, Brand = ''H'', Total_Sales = Fin 3, Online_Popularity = Fin 3, extra = (\<lambda>c. Fin 1)\<rparr>,
   \<lparr>Date = 4, Brand = ''H'', Total_Sales = Fin 4, Online_Popularity = Fin 4, extra = (\<lambda>c. Fin 0)\<rparr>,
   \<lparr>Date = 5, Brand = ''H'', Total_Sales = Fin 5, Online_Popularity = Fin 5, extra = (\<lambda>c. Fin 1)\<rparr>,
   \<lparr>Date = 6, Brand = ''H'', Total_Sales = Fin 6, Online_Popularity = Fin 6, extra = (\<lambda>c. Fin 0)\<rparr>,
   \<lparr>Date = 7, Brand = ''H'', Total_Sales = Fin 7, Online_Popularity = Fin 7, extra = (\<lambda>c. Fin 1)\<rparr>,
   \<lparr>Date = 8, Brand = ''H'', Total_Sales = Fin 8, Online_Popularity = Fin 8, extra = (\<lambda>c. Fin 0)\<rparr>,
   \<lparr>Date = 9, Brand = ''H'', Total_Sales = Fin 9, Online_Popularity = Fin 9, extra = (\<lambda>c. Fin 1)\<rparr>,
   \<lparr>Date = 10, Brand = ''H'', Total_Sales = Fin 10, Online_Popularity = Fin 10, extra = (\<lambda>c. Fin 0)\<rparr>]"
  by (simp add: healthy_days_def upt_conv_Cons)

lemma groupby_healthy_days: "groupby_Brand healthy_days = [(''H'', healthy_days)]"
  by (rule groupby_Brand_single) (auto simp: healthy_days_def)

lemma sort_healthy_days: "sort_key Date healthy_days = healthy_days"
  by (rule sort_key_id_if_sorted) (simp add: healthy_days_rows)

lemma brand_healthy_days: "\<forall>r \<in> set healthy_days. Brand r = ''H''"
  by (auto simp: healthy_days_def)

lemma brand_ten_days: "\<forall>r \<in> set ten_days. Brand r = ''A''"
  by (auto simp: ten_days_def)

lemma groupby_healthy_and_ten_days:
  "groupby_Brand (healthy_days @ ten_days) = [(''A'', ten_days), (''H'', healthy_days)]"
proof -
  have k: "set (map Brand (healthy_days @ ten_days)) = {''A'', ''H''}"
    using brand_healthy_days brand_ten_days
    by (auto simp: healthy_days_rows ten_days_rows)
  have "sort (remdups (map Brand (healthy_days @ ten_days)))
          = sorted_list_of_set (set (map Brand (healthy_days @ ten_days)))"
    by (simp only: sorted_list_of_set_sort_remdups)
  also have "\<dots> = [''A'', ''H'']" unfolding k by simp
  finally have s: "sort (remdups (map Brand (healthy_days @ ten_days))) = [''A'', ''H'']" .
  have a: "[r \<leftarrow> healthy_days @ ten_days. Brand r = ''A''] = ten_days"
    using brand_healthy_days brand_ten_days by (simp add: filter_empty_conv filter_id_conv)
  have h: "[r \<leftarrow> healthy_days @ ten_days. Brand r = ''H''] = healthy_days"
    using brand_healthy_days brand_ten_days by (simp add: filter_empty_conv filter_id_conv)
  show ?thesis unfolding groupby_Brand_def s using a h by simp
qed

lemma healthy_without_ten_days: "[r \<leftarrow> healthy_days @ ten_days. Brand r \<noteq> ''A''] = healthy_days"
  using brand_healthy_days brand_ten_days by (simp add: filter_empty_conv filter_id_conv)

lemma prophet_brand_ten_days_missing:
  "prophet_brand fit_model predict_row [''Promotion''] ''A'' ten_days = Inl ValueError"
  using prophet_run_ten_days_missing[of fit_model predict_row]
  by (auto simp: forecast_with_prophet_def groupby_ten_days split: sum.splits option.splits if_splits)

lemma prophet_run_healthy_and_ten_days:
  "forecast_with_prophet fit_model predict_row
     (Some \<lparr>columns = [''Promotion''], rows = healthy_days @ ten_days\<rparr>) = Inl ValueError"
  by (simp add: forecast_with_prophet_def groupby_healthy_and_ten_days prophet_brand_ten_days_missing)

lemma prophet_run_healthy_days:
  "\<exists>fc ms. forecast_with_prophet fit_model predict_row
       (Some \<lparr>columns = [''Promotion''], rows = healthy_days\<rparr>) = Inr (Some (fc, ms)) \<and>
     map p_Date fc = map int [1..<39] \<and>
     map m_Brand ms = [''H'']"
  apply (simp add: forecast_with_prophet_def groupby_healthy_days prophet_brand_def sort_healthy_days)
  apply (simp add: healthy_days_rows make_prophet_df_def clean_def Let_def group_sum_def
      group_mean_def replace_inf_def split_80_20_def train_size_div isnull_any_def
      used_regressors_def extra_regressors_def regressors_to_use_def nunique_def predict_def
      make_future_dataframe_def merge_left_def upt_conv_Cons case_prod_beta)
  done

lemma ten_days_passes_guards:
  "\<not> (let prophet_df = clean (make_prophet_df [''Promotion''] (sort_key Date ten_days));
           (train, test) = split_80_20 prophet_df
       in length prophet_df < 3 \<or> length train < 2 \<or> isnull_any [''Promotion''] train \<or> test = [])"
proof -
  let ?pdf = "clean (make_prophet_df [''Promotion''] (sort_key Date ten_days))"
  have "map ds ?pdf = map int [1..<11]"
    unfolding sort_ten_days
    by (simp add: ten_days_rows make_prophet_df_def clean_def Let_def group_sum_def
          replace_inf_def upt_conv_Cons)
  then have "length (map ds ?pdf) = 10" by simp
  then have l: "length ?pdf = 10" by simp
  have t: "train_size 10 = 8" by (simp add: train_size_div)
  show ?thesis
    using ten_days_guard l t by (simp add: Let_def split_80_20_def)
qed

subsection \<open>Skipped brands and errors\<close>

lemma groupby_Brand_remove:
  "groupby_Brand [r \<leftarrow> df. Brand r \<noteq> b] = [g \<leftarrow> groupby_Brand df. fst g \<noteq> b]"
proof -
  let ?ks = "sort (remdups (map Brand df))"
  have "map Brand [r \<leftarrow> df. Brand r \<noteq> b] = [k \<leftarrow> map Brand df. k \<noteq> b]"
    by (simp add: filter_map comp_def)
  then have "sort (remdups (map Brand [r \<leftarrow> df. Brand r \<noteq> b]))
               = sort [k \<leftarrow> remdups (map Brand df). k \<noteq> b]"
    by (simp only: remdups_filter)
  also have "\<dots> = [k \<leftarrow> ?ks. k \<noteq> b]" by (rule filter_sort[symmetric])
  finally have k: "sort (remdups (map Brand [r \<leftarrow> df. Brand r \<noteq> b])) = [k \<leftarrow> ?ks. k \<noteq> b]" .
  have i: "filter (\<lambda>r. Brand r = k) [r \<leftarrow> df. Brand r \<noteq> b] = filter (\<lambda>r. Brand r = k) df"
    if "k \<noteq> b" for k
    using that by (auto intro: filter_cong)
  have "groupby_Brand [r \<leftarrow> df. Brand r \<noteq> b]
          = map (\<lambda>k. (k, filter (\<lambda>r. Brand r = k) [r \<leftarrow> df. Brand r \<noteq> b])) [k \<leftarrow> ?ks. k \<noteq> b]"
    unfolding groupby_Brand_def k ..
  also have "\<dots> = map (\<lambda>k. (k, filter (\<lambda>r. Brand r = k) df)) [k \<leftarrow> ?ks. k \<noteq> b]"
    by (rule map_cong) (use i in auto)
  also have "\<dots> = [g \<leftarrow> groupby_Brand df. fst g \<noteq> b]"
    by (simp add: groupby_Brand_def filter_map comp_def)
  finally show ?thesis .
qed

lemma groupby_Brand_group:
  "(b, g) \<in> set (groupby_Brand df) \<Longrightarrow> g = [r \<leftarrow> df. Brand r = b]"
  by (auto simp: groupby_Brand_def)

lemma brand_loop_skip:
  assumes "\<And>g. (b, g) \<in> set groups \<Longrightarrow> body b g = Inr None"
  shows "brand_loop body [g \<leftarrow> groups. fst g \<noteq> b] acc = brand_loop body groups acc"
  using assms
proof (induction groups arbitrary: acc)
  case Nil
  then show ?case by simp
next
  case (Cons g groups)
  obtain k rs where g: "g = (k, rs)" by (cases g)
  obtain fcs ms where acc: "acc = (fcs, ms)" by (cases acc)
  have ih: "brand_loop body [g \<leftarrow> groups. fst g \<noteq> b] a = brand_loop body groups a" for a
    by (rule Cons.IH) (simp add: Cons.prems)
  show ?case
  proof (cases "k = b")
    case True
    with Cons.prems[of rs] g have "body b rs = Inr None" by simp
    with True show ?thesis by (simp add: g acc ih)
  next
    case False
    then show ?thesis by (simp add: g acc ih split: sum.splits option.splits)
  qed
qed

lemma run_without_skipped_brand:
  assumes "body b [r \<leftarrow> df. Brand r = b] = Inr None"
  shows "brand_loop body (groupby_Brand [r \<leftarrow> df. Brand r \<noteq> b]) acc
           = brand_loop body (groupby_Brand df) acc"
  unfolding groupby_Brand_remove
  by (rule brand_loop_skip) (use assms groupby_Brand_group in auto)

lemma prophet_brand_skip:
  assumes "let prophet_df = clean (make_prophet_df cols (sort_key Date brand_df));
               (train, test) = split_80_20 prophet_df
           in length prophet_df < 3 \<or> length train < 2 \<or> isnull_any cols train \<or> test = []"
  shows "prophet_brand fit_model predict_row cols brand brand_df = Inr None"
  using assms unfolding prophet_brand_unfold by (auto simp: Let_def case_prod_beta)

lemma lstm_brand_skip:
  assumes "let lstm_df = agg_by_Date cols (sort_key Date brand_df);
               X = make_X (snd (fit_transform (map snd lstm_df)))
           in length lstm_df < seq_length + 1 \<or> length X < 20"
  shows "lstm_brand train_model forward cols brand brand_df = Inr None"
  using assms unfolding lstm_brand_unfold by (auto simp: Let_def fit_transform_def)

lemma infinite_sales_only:
  "[r \<leftarrow> three_days @ infinite_sales. Brand r = ''B''] = infinite_sales"
  by (simp add: three_days_def infinite_sales_def)

lemma infinite_sales_cleaned:
  "clean (make_prophet_df cols (sort_key Date infinite_sales)) = []"
  by (simp add: infinite_sales_def make_prophet_df_def clean_def Let_def group_sum_def replace_inf_def)

lemma one_day_only: "[r \<leftarrow> consecutive_days n @ one_day. Brand r = ''B''] = one_day"
proof -
  have "[r \<leftarrow> consecutive_days n. Brand r = ''B''] = []"
    by (auto simp: consecutive_days_def filter_empty_conv)
  then show ?thesis by (simp add: one_day_def)
qed

lemma one_day_agg: "length (agg_by_Date cols (sort_key Date one_day)) = 1"
  by (simp add: one_day_def agg_by_Date_def)

lemma brand_loop_error:
  "brand_loop body groups acc = Inl e \<Longrightarrow> \<exists>(b, g) \<in> set groups. body b g = Inl e"
proof (induction groups arbitrary: acc)
  case Nil
  then show ?case by simp
next
  case (Cons g groups)
  obtain k rs where g: "g = (k, rs)" by (cases g)
  obtain fcs ms where acc: "acc = (fcs, ms)" by (cases acc)
  show ?case
  proof (cases "body k rs")
    case (Inl e')
    with Cons.prems show ?thesis by (simp add: g acc)
  next
    case (Inr res)
    with Cons.prems obtain acc' where "brand_loop body groups acc' = Inl e"
      by (cases res) (auto simp: g acc)
    from Cons.IH[OF this] show ?thesis by auto
  qed
qed

lemma lstm_run_FileNotFoundError_iff:
  "run_lstm_forecast train_model forward processed = Inl FileNotFoundError \<longleftrightarrow>
     processed = None"
proof (cases processed)
  case None
  then show ?thesis by (simp add: run_lstm_forecast_def)
next
  case (Some df)
  have n: "lstm_brand train_model forward (columns df) b g \<noteq> Inl FileNotFoundError" for b g
    unfolding lstm_brand_unfold by auto
  have "brand_loop (lstm_brand train_model forward (columns df)) (groupby_Brand (rows df)) ([], [])
          \<noteq> Inl FileNotFoundError"
    using brand_loop_error[of "lstm_brand train_model forward (columns df)" _ _ FileNotFoundError] n
    by fastforce
  with Some show ?thesis by (auto simp: run_lstm_forecast_def split: sum.splits)
qed

lemma prophet_run_FileNotFoundError_iff:
  "forecast_with_prophet fit_model predict_row processed = Inl FileNotFoundError \<longleftrightarrow>
     processed = None"
proof (cases processed)
  case None
  then show ?thesis by (simp add: forecast_with_prophet_def)
next
  case (Some df)
  have "brand_loop (prophet_brand fit_model predict_row (columns df)) (groupby_Brand (rows df)) ([], [])
          \<noteq> Inl FileNotFoundError"
    using brand_loop_error[of "prophet_brand fit_model predict_row (columns df)" _ _ FileNotFoundError]
      prophet_brand_error[of fit_model predict_row "columns df" _ _ FileNotFoundError]
    by fastforce
  with Some show ?thesis by (auto simp: forecast_with_prophet_def split: sum.splits)
qed

subsection \<open>Columns of the raw table and their normalisation\<close>

lemma length_cells: "length (cells c df) = length df"
  by (simp add: cells_def)

lemma length_assign: "length vs = length df \<Longrightarrow> length (assign c vs df) = length df"
  by (simp add: assign_def)

lemma cells_assign_same: "length vs = length df \<Longrightarrow> cells c (assign c vs df) = vs"
  by (auto simp: cells_def assign_def intro!: nth_equalityI)

lemma cells_assign_other: "length vs = length df \<Longrightarrow> c' \<noteq> c \<Longrightarrow> cells c' (assign c vs df) = cells c' df"
  by (auto simp: cells_def assign_def intro!: nth_equalityI)

lemma length_zscore: "length (zscore vs) = length vs"
  by (simp add: zscore_def split: option.splits)

lemma fold_normalize:
  assumes "length df0 = length df" and "distinct cs"
  shows "length (fold (\<lambda>c d. assign c (zscore (cells c df)) d) cs df0) = length df0 \<and>
         cells c (fold (\<lambda>c d. assign c (zscore (cells c df)) d) cs df0)
           = (if c \<in> set cs then zscore (cells c df) else cells c df0)"
  using assms
proof (induction cs arbitrary: df0)
  case Nil
  then show ?case by simp
next
  case (Cons a cs)
  let ?d = "assign a (zscore (cells a df)) df0"
  have l: "length (zscore (cells a df)) = length df0"
    using Cons.prems by (simp add: length_zscore length_cells)
  have ld: "length ?d = length df" using l Cons.prems by (simp add: length_assign)
  from Cons.prems have dc: "distinct cs" and na: "a \<notin> set cs" by simp_all
  note ih = Cons.IH[OF ld dc]
  show ?case
  proof (cases "c = a")
    case True
    with ih na l show ?thesis by (simp add: cells_assign_same ld Cons.prems)
  next
    case False
    with ih l show ?thesis by (simp add: cells_assign_other ld Cons.prems)
  qed
qed

lemma distinct_numeric_cols_to_normalize: "distinct numeric_cols_to_normalize"
  by (simp add: numeric_cols_to_normalize_def)

lemma cells_normalize_columns:
  "cells c (normalize_columns cols df)
     = (if c \<in> set numeric_cols_to_normalize \<and> c \<in> set cols then zscore (cells c df) else cells c df)"
proof -
  have d: "distinct [c \<leftarrow> numeric_cols_to_normalize. c \<in> set cols]"
    using distinct_numeric_cols_to_normalize by (rule distinct_filter)
  from fold_normalize[OF refl d, of df c] show ?thesis
    by (simp add: normalize_columns_def)
qed

lemma length_normalize_columns: "length (normalize_columns cols df) = length df"
proof -
  have d: "distinct [c \<leftarrow> numeric_cols_to_normalize. c \<in> set cols]"
    using distinct_numeric_cols_to_normalize by (rule distinct_filter)
  from fold_normalize[OF refl d, of df] show ?thesis
    by (simp add: normalize_columns_def)
qed

lemma pd_std_nonneg: "pd_std vs = Some sd \<Longrightarrow> 0 \<le> sd"
  by (auto simp: pd_std_def Let_def split: if_splits intro!: sum_list_nonneg divide_nonneg_nonneg)

lemma dropna_map_option: "dropna (map (map_option f) vs) = map f (dropna vs)"
  by (induction vs) (auto simp: dropna_def)

lemma sum_list_shift_scale:
  "sum_list (map (\<lambda>v. (v - m) / d) s) = (sum_list s - real (length s) * m) / (d :: real)"
proof (induction s)
  case Nil
  then show ?case by simp
next
  case (Cons a s)
  have "(a - m) / d + (sum_list s - real (length s) * m) / d
          = (a + sum_list s - (1 + real (length s)) * m) / d"
    by (simp add: add_divide_distrib[symmetric] algebra_simps)
  with Cons show ?case by simp
qed

lemma zscore_Some:
  assumes "pd_mean vs = Some m" and "pd_std vs = Some sd"
  shows "0 < sd + 1 / 10 ^ 6"
    and "zscore vs = map (map_option (\<lambda>v. (v - m) / (sd + 1 / 10 ^ 6))) vs"
    and "pd_mean (zscore vs) = Some 0"
proof -
  from pd_std_nonneg[OF assms(2)] show p: "0 < sd + 1 / 10 ^ 6" by simp
  show z: "zscore vs = map (map_option (\<lambda>v. (v - m) / (sd + 1 / 10 ^ 6))) vs"
    using assms by (simp add: zscore_def)
  from assms(1) have ne: "dropna vs \<noteq> []" and m: "m = sum_list (dropna vs) / real (length (dropna vs))"
    by (auto simp: pd_mean_def Let_def split: if_splits)
  from ne have n0: "real (length (dropna vs)) \<noteq> 0" by simp
  have "sum_list (dropna vs) - real (length (dropna vs)) * m = 0"
    unfolding m using n0 by simp
  then show "pd_mean (zscore vs) = Some 0"
    unfolding z using ne by (simp add: pd_mean_def dropna_map_option sum_list_shift_scale)
qed

lemma cells_three_raw_rows: "cells c three_raw_rows = [Some 0, Some 1, Some 2]"
  by (simp add: cells_def three_raw_rows_def)

lemma pd_mean_012: "pd_mean [Some 0, Some 1, Some 2] = Some 1"
  by (simp add: pd_mean_def dropna_def)

lemma pd_std_012: "pd_std [Some 0, Some 1, Some 2] = Some 1"
  by (simp add: pd_std_def dropna_def Let_def)

lemma zscore_012:
  "zscore [Some 0, Some 1, Some 2] = [Some (- (1000000 / 1000001)), Some 0, Some (1000000 / 1000001)]"
  by (simp add: zscore_def pd_mean_012 pd_std_012)

subsection \<open>The keys of the rows through the preprocessing\<close>

lemma assign_keeps:
  assumes "length vs = length df" and "\<And>r v. f (r\<lparr>num := v\<rparr>) = f r"
  shows "map f (assign c vs df) = map f df"
  using assms(1) by (auto simp: assign_def assms(2) intro!: nth_equalityI)

lemma length_fillna: "length (fillna m vs) = length vs"
  by (simp add: fillna_def)

lemma length_fill_median: "length (fill_median c df) = length df"
  by (simp add: fill_median_def length_assign length_fillna length_cells)

lemma fill_median_keeps:
  assumes "\<And>r v. f (r\<lparr>num := v\<rparr>) = f r"
  shows "map f (fill_median c df) = map f df"
  unfolding fill_median_def
  by (rule assign_keeps) (simp_all add: length_fillna length_cells assms)

lemma fold_fill_median_keeps:
  assumes "\<And>r v. f (r\<lparr>num := v\<rparr>) = f r"
  shows "map f (fold (\<lambda>c df. if c \<in> set cols then fill_median c df else df) cs df) = map f df"
  by (induction cs arbitrary: df) (simp_all add: fill_median_keeps[of f] assms)

lemma handle_missing_keeps:
  assumes "\<And>r v. f (r\<lparr>num := v\<rparr>) = f r"
  shows "map f (handle_missing cols df) = map f df"
proof -
  note k = fill_median_keeps[of f, OF assms] fold_fill_median_keeps[of f, OF assms]
  let ?d4 = "fold (\<lambda>c df. if c \<in> set cols then fill_median c df else df) numeric_fill_cols
      (fill_median ''Quantity_Sold'' (fill_median ''Total_Sales'' (fill_median ''Online_Popularity'' df)))"
  have a: "map f ?d4 = map f df" by (simp add: k)
  have "map f (assign ''Is_Holiday'' (fillna (Some 0) (cells ''Is_Holiday'' ?d4)) ?d4) = map f ?d4"
    by (rule assign_keeps) (simp_all add: length_fillna length_cells assms)
  with a show ?thesis by (simp add: handle_missing_def Let_def)
qed

lemma length_fit_transform_labels: "length (fit_transform_labels vs) = length vs"
  by (simp add: fit_transform_labels_def Let_def)

lemma encode_labels_keeps:
  assumes "\<And>r v. f (r\<lparr>num := v\<rparr>) = f r"
  shows "map f (encode_labels df) = map f df"
proof -
  let ?d1 = "assign ''Category_Encoded'' (fit_transform_labels (map r_Category df)) df"
  let ?d2 = "assign ''Brand_Encoded'' (fit_transform_labels (map r_Brand ?d1)) ?d1"
  have l1: "length ?d1 = length df" by (simp add: length_assign length_fit_transform_labels)
  have l2: "length ?d2 = length df" by (simp add: length_assign length_fit_transform_labels l1)
  have 1: "map f ?d1 = map f df"
    by (rule assign_keeps) (simp_all add: length_fit_transform_labels assms)
  have 2: "map f ?d2 = map f ?d1"
    by (rule assign_keeps) (simp_all add: length_fit_transform_labels assms)
  have 3: "map f (assign ''Region_Encoded'' (fit_transform_labels (map r_Region ?d2)) ?d2) = map f ?d2"
    by (rule assign_keeps) (simp_all add: length_fit_transform_labels assms)
  from 1 2 3 show ?thesis by (simp add: encode_labels_def Let_def)
qed

lemma length_transform_by_Brand: "length (transform_by_Brand f df vs) = length df"
  by (simp add: transform_by_Brand_def)

lemma feature_engineering_keeps:
  assumes "\<And>r v. f (r\<lparr>num := v\<rparr>) = f r"
  shows "map f (feature_engineering df) = map f df"
proof -
  let ?d1 = "assign ''Sales_Lag_1'' (transform_by_Brand shift df (cells ''Total_Sales'' df)) df"
  let ?d2 = "assign ''Sales_MA_3'' (transform_by_Brand rolling_mean ?d1 (cells ''Total_Sales'' ?d1)) ?d1"
  let ?d3 = "assign ''Sales_Lag_1''
       (transform_by_Brand (\<lambda>vs. bfill_cells (ffill_cells None vs)) ?d2 (cells ''Sales_Lag_1'' ?d2)) ?d2"
  let ?d4 = "assign ''Sales_MA_3''
       (map2 (\<lambda>m t. case m of None \<Rightarrow> t | Some a \<Rightarrow> Some a)
          (cells ''Sales_MA_3'' ?d3) (cells ''Total_Sales'' ?d3)) ?d3"
  have 1: "map f ?d1 = map f df"
    by (rule assign_keeps) (simp_all add: length_transform_by_Brand assms)
  have 2: "map f ?d2 = map f ?d1"
    by (rule assign_keeps) (simp_all add: length_transform_by_Brand assms)
  have 3: "map f ?d3 = map f ?d2"
    by (rule assign_keeps) (simp_all add: length_transform_by_Brand assms)
  have 4: "map f ?d4 = map f ?d3"
    by (rule assign_keeps) (simp_all add: length_cells assms)
  from 1 2 3 4 show ?thesis by (simp add: feature_engineering_def Let_def)
qed

lemma fold_zscore_keeps:
  assumes "\<And>r v. f (r\<lparr>num := v\<rparr>) = f r" and "length d = length df"
  shows "map f (fold (\<lambda>c d. assign c (zscore (cells c df)) d) cs d) = map f d"
  using assms(2)
proof (induction cs arbitrary: d)
  case Nil
  then show ?case by simp
next
  case (Cons c cs)
  have l: "length (zscore (cells c df)) = length d"
    using Cons.prems by (simp add: length_zscore length_cells)
  have k: "map f (assign c (zscore (cells c df)) d) = map f d"
    by (rule assign_keeps[OF l]) (rule assms(1))
  have "length (assign c (zscore (cells c df)) d) = length df"
    using l Cons.prems by (simp add: length_assign)
  from Cons.IH[OF this] k show ?case by simp
qed

lemma normalize_columns_keeps:
  assumes "\<And>r v. f (r\<lparr>num := v\<rparr>) = f r"
  shows "map f (normalize_columns cols df) = map f df"
  unfolding normalize_columns_def Let_def
  by (rule fold_zscore_keeps[OF assms refl])

lemma raw_key_num: "raw_key (r\<lparr>num := v\<rparr>) = raw_key r"
  by (simp add: raw_key_def)

lemma keys_before_aggregation:
  "set (map raw_key (normalize_columns cols
      (feature_engineering (encode_labels (sort_values (handle_missing cols0 df))))))
   = set (map raw_key df)"
proof -
  have "set (map raw_key (sort_values (handle_missing cols0 df))) = set (map raw_key (handle_missing cols0 df))"
    by (simp add: sort_values_def)
  also have "\<dots> = set (map raw_key df)"
    by (simp only: handle_missing_keeps[of raw_key, OF raw_key_num])
  finally show ?thesis
    by (simp only: normalize_columns_keeps[of raw_key, OF raw_key_num]
          feature_engineering_keeps[of raw_key, OF raw_key_num]
          encode_labels_keeps[of raw_key, OF raw_key_num])
qed

lemma agg_keys: "map (\<lambda>r. (a_Category r, a_Brand r, a_Date r)) (a_rows (groupby_agg cols df)) = group_keys df"
  by (simp add: groupby_agg_def comp_def case_prod_beta Let_def)

lemma distinct_group_keys: "distinct (group_keys df)"
  by (simp add: group_keys_def)

lemma set_group_keys:
  "set (group_keys df) = {(c, b, d). (c, b, Some d) \<in> set (map raw_key df)}"
  by (auto simp: group_keys_def raw_key_def image_iff) (metis option.sel)

lemma preprocess_keys:
  "map (\<lambda>r. (a_Category r, a_Brand r, a_Date r)) (a_rows (preprocess raw))
     = group_keys (normalize_columns
         (r_columns raw @ [''Category_Encoded'', ''Brand_Encoded'', ''Region_Encoded'',
                           ''Sales_Lag_1'', ''Sales_MA_3''])
         (feature_engineering (encode_labels (sort_values (handle_missing (r_columns raw) (r_rows raw))))))"
  by (simp only: preprocess_def Let_def agg_keys)

lemma preprocess_data_error_iff:
  "fst (preprocess_data fs) = Inl e \<longleftrightarrow> RAW_DATA_FILE fs = None \<and> e = FileNotFoundError"
  by (cases "RAW_DATA_FILE fs") (auto simp: preprocess_data_def Let_def)

lemma preprocess_data_twice:
  "(let (r1, fs1) = preprocess_data fs; (r2, fs2) = preprocess_data fs1 in r2 = r1 \<and> fs2 = fs1)"
  by (cases "RAW_DATA_FILE fs") (simp_all add: preprocess_data_def Let_def)

lemma keys_three_raw_rows:
  "{(c, b, d). (c, b, Some d) \<in> set (map raw_key three_raw_rows)}
     = {(''C'', ''A'', 1), (''C'', ''A'', 2), (''C'', ''A'', 3)}"
  by (auto simp: three_raw_rows_def raw_key_def)

section \<open>The rollout of the sequence forecaster\<close>

text \<open>
  Claim C2. During the rollout of the sequence forecaster only the target changes: every
  synthetic row appended to the running series carries, in all its features but the first
  (the sales), the scaled values of the last observed row. The rollout starts from the
  scaled series of the brand, which is not empty, appends one row per step and collects the
  same rows in \<open>future_scaled\<close>.
\<close>

theorem rollout_freezes_features:
  assumes "scaled \<noteq> []"
    and "rollout forward n (scaled, last_n seq_length scaled, []) = (scaled', last_seq, future_scaled)"
  shows "length future_scaled = n \<and> scaled' = scaled @ future_scaled \<and>
         (\<forall>row \<in> set future_scaled. tl row = tl (last scaled))"
  using rollout_appends[OF assms(2)] by auto

theorem rollout_freezes_features_witness:
  "[[0, 5], [1, 7::real]] \<noteq> [] \<and>
   rollout (\<lambda>w. 9) (Suc (Suc 0)) ([[0, 5], [1, 7]], last_n seq_length [[0, 5], [1, 7]], [])
     = ([[0, 5], [1, 7], [9, 7], [9, 7]], [[0, 5], [1, 7], [9, 7], [9, 7]], [[9, 7], [9, 7]]) \<and>
   map tl [[9, 7], [9, 7::real]] = replicate 2 (tl (last [[0, 5], [1, 7]]))"
proof -
  have r: "rollout (\<lambda>w. 9) (Suc (Suc 0)) ([[0, 5], [1, 7::real]], last_n seq_length [[0, 5], [1, 7]], [])
     = ([[0, 5], [1, 7], [9, 7], [9, 7]], [[0, 5], [1, 7], [9, 7], [9, 7]], [[9, 7], [9, 7]])"
    by (simp add: last_n_def seq_length_def Let_def)
  have ne: "[[0, 5], [1, 7::real]] \<noteq> []" by simp
  from rollout_freezes_features[OF ne r]
  have "\<forall>row \<in> set [[9, 7], [9, 7::real]]. tl row = tl (last [[0, 5], [1, 7]])" by blast
  then have "map tl [[9, 7], [9, 7::real]] = replicate 2 (tl (last [[0, 5], [1, 7]]))"
    by (simp add: numeral_2_eq_2)
  with ne r show ?thesis by blast
qed

section \<open>The scaler of the sequence forecaster\<close>

text \<open>
  Claim C8. For the feature matrix of any brand, the inverse transform of the scaler fitted
  on this matrix, applied to the freshly scaled matrix, gives the matrix back. Cells are real
  numbers here, so the values are reproduced exactly.
\<close>

theorem scaling_round_trip:
  assumes "fit_transform (map snd (agg_by_Date cols brand_df)) = (scaler, scaled)"
  shows "inverse_transform scaler scaled = map snd (agg_by_Date cols brand_df)"
proof -
  let ?X = "map snd (agg_by_Date cols brand_df)"
  have rect: "\<forall>r \<in> set ?X. length r = length (hd ?X)"
  proof (cases "?X")
    case Nil
    then show ?thesis by simp
  next
    case (Cons a list)
    then have "hd ?X \<in> set ?X" by simp
    then show ?thesis using agg_by_Date_rect by metis
  qed
  from assms have "scaler = fit ?X" "scaled = transform (fit ?X) ?X"
    by (auto simp: fit_transform_def)
  then show ?thesis using round_trip_rect[OF rect] by simp
qed

theorem scaling_round_trip_witness:
  "fit_transform (map snd (agg_by_Date [] two_days))
     = (\<lparr>sc_scale = [1/20, 1], sc_min = [-1/2, -1]\<rparr>, [[0, 0], [1, 0]]) \<and>
   inverse_transform \<lparr>sc_scale = [1/20, 1], sc_min = [-1/2, -1]\<rparr> [[0, 0], [1, 0]]
     = [[10, 1], [30, 1]]"
proof -
  have f: "fit_transform (map snd (agg_by_Date [] two_days))
     = (\<lparr>sc_scale = [1/20, 1], sc_min = [-1/2, -1]\<rparr>, [[0, 0], [1, 0]])"
    by (simp add: fit_transform_def agg_two_days fit_two_days transform_def upt_conv_Cons)
  show ?thesis using scaling_round_trip[OF f] f by (simp add: agg_two_days)
qed

section \<open>The regressors of the seasonal forecaster\<close>

text \<open>
  Claim C3. Every regressor admitted into the seasonal model, the trend score included, has
  more than one distinct value in the training split: two rows of the split differ on it, so
  a column that is constant on the split is never admitted. An admitted regressor is the
  trend score or an extra regressor that is a column of the table.
\<close>

theorem admitted_regressors_vary:
  assumes "reg \<in> set (regressors_to_use cols train)"
  shows "1 < card ((\<lambda>r. x r reg) ` set train) \<and>
         (\<exists>a \<in> set train. \<exists>b \<in> set train. x a reg \<noteq> x b reg) \<and>
         (reg = ''Trend_Score'' \<or> reg \<in> set (used_regressors cols))"
proof -
  let ?V = "(\<lambda>r. x r reg) ` set train"
  from assms have n: "1 < nunique reg train"
    by (auto simp: regressors_to_use_def split: if_splits)
  from assms have k: "reg = ''Trend_Score'' \<or> reg \<in> set (used_regressors cols)"
    by (auto simp: regressors_to_use_def split: if_splits)
  have fin: "finite ?V" by simp
  have "card (?V - {NaN}) \<le> card ?V" by (rule card_mono[OF fin]) blast
  with n have c: "1 < card ?V" by (simp only: nunique_card)
  then have "\<not> card ?V \<le> Suc 0" by simp
  then have "\<not> (\<forall>u \<in> ?V. \<forall>v \<in> ?V. u = v)"
    using card_le_Suc0_iff_eq[OF fin] by blast
  then have "\<exists>a \<in> set train. \<exists>b \<in> set train. x a reg \<noteq> x b reg" by blast
  with c k show ?thesis by blast
qed

theorem admitted_regressors_vary_witness:
  "''Promotion'' \<in> set (regressors_to_use [''Promotion'']
      (fst (split_80_20 (clean (make_prophet_df [''Promotion''] three_days))))) \<and>
   1 < card ((\<lambda>r. x r ''Promotion'') `
      set (fst (split_80_20 (clean (make_prophet_df [''Promotion''] three_days)))))"
proof -
  have m: "''Promotion'' \<in> set (regressors_to_use [''Promotion'']
      (fst (split_80_20 (clean (make_prophet_df [''Promotion''] three_days)))))"
    by (simp add: three_days_def make_prophet_df_def clean_def Let_def group_sum_def
          group_mean_def replace_inf_def split_80_20_def train_size_div used_regressors_def
          extra_regressors_def regressors_to_use_def nunique_def)
  from admitted_regressors_vary[OF m] m show ?thesis by blast
qed

section \<open>The chronological split\<close>

text \<open>
  Claim C5. In both forecasters the split is chronological and unshuffled. In the seasonal
  forecaster the cleaned frame of a brand is in strictly ascending date order, the training
  split is its first \<open>floor (0.8 * n)\<close> rows and the holdout split the remaining rows, so
  every training row is earlier than every holdout row. In the sequence forecaster the rows
  are in strictly ascending date order too, the training samples are the first
  \<open>k = floor (0.8 * n)\<close> of the \<open>n\<close> samples, which are the samples built from the earliest
  \<open>k + seq_length\<close> rows, and the holdout samples are the samples built from the rows after
  the first \<open>k\<close>.
\<close>

theorem split_is_chronological:
  "(let prophet_df = clean (make_prophet_df cols (sort_key Date brand_df));
        (train, test) = split_80_20 prophet_df
    in train @ test = prophet_df \<and> length train = nat \<lfloor>0.8 * real (length prophet_df)\<rfloor> \<and>
       sorted_wrt (<) (map ds prophet_df) \<and> (\<forall>a \<in> set train. \<forall>b \<in> set test. ds a < ds b)) \<and>
   (let lstm_df = agg_by_Date lcols (sort_key Date lstm_rows);
        scaled = snd (fit_transform (map snd lstm_df));
        X = make_X scaled; y = make_y scaled;
        (X_train, X_test) = split_80_20 X;
        (y_train, y_test) = split_80_20 y;
        k = nat \<lfloor>0.8 * real (length X)\<rfloor>
    in sorted_wrt (<) (map fst lstm_df) \<and> length scaled = length lstm_df \<and>
       X_train @ X_test = X \<and> length X_train = k \<and>
       X_train = make_X (take (k + seq_length) scaled) \<and> X_test = make_X (drop k scaled) \<and>
       y_train = make_y (take (k + seq_length) scaled) \<and> y_test = make_y (drop k scaled))"
proof -
  let ?pdf = "clean (make_prophet_df cols (sort_key Date brand_df))"
  let ?k = "train_size (length ?pdf)"
  have s: "sorted_wrt (<) (map ds ?pdf)" by (rule prophet_df_sorted)
  then have "sorted_wrt (<) (map ds (take ?k ?pdf @ drop ?k ?pdf))" by simp
  then have o: "\<forall>a \<in> set (take ?k ?pdf). \<forall>b \<in> set (drop ?k ?pdf). ds a < ds b"
    by (rule sorted_split)
  have "length (take ?k ?pdf) = ?k"
    using train_size_le[of "length ?pdf"] by simp
  also have "?k = nat \<lfloor>0.8 * real (length ?pdf)\<rfloor>" by (rule train_size_floor)
  finally have l: "length (take ?k ?pdf) = nat \<lfloor>0.8 * real (length ?pdf)\<rfloor>" .
  have P: "let prophet_df = ?pdf; (train, test) = split_80_20 prophet_df
    in train @ test = prophet_df \<and> length train = nat \<lfloor>0.8 * real (length prophet_df)\<rfloor> \<and>
       sorted_wrt (<) (map ds prophet_df) \<and> (\<forall>a \<in> set train. \<forall>b \<in> set test. ds a < ds b)"
    unfolding Let_def split_80_20_def prod.case using s o l by simp
  let ?df = "agg_by_Date lcols (sort_key Date lstm_rows)"
  let ?sc = "snd (fit_transform (map snd ?df))"
  let ?n = "train_size (length (make_X ?sc))"
  have d: "sorted_wrt (<) (map fst ?df)" by (simp add: agg_by_Date_dates sorted_dates)
  have ls: "length ?sc = length ?df" by (simp add: fit_transform_def length_transform)
  have nX: "?n \<le> length (make_X ?sc)" by (rule train_size_le)
  have ny: "train_size (length (make_y ?sc)) = ?n" by (simp add: length_make_X length_make_y)
  have nk: "nat \<lfloor>0.8 * real (length (make_X ?sc))\<rfloor> = ?n" by (rule train_size_floor[symmetric])
  have L: "let lstm_df = ?df;
        scaled = snd (fit_transform (map snd lstm_df));
        X = make_X scaled; y = make_y scaled;
        (X_train, X_test) = split_80_20 X;
        (y_train, y_test) = split_80_20 y;
        k = nat \<lfloor>0.8 * real (length X)\<rfloor>
    in sorted_wrt (<) (map fst lstm_df) \<and> length scaled = length lstm_df \<and>
       X_train @ X_test = X \<and> length X_train = k \<and>
       X_train = make_X (take (k + seq_length) scaled) \<and> X_test = make_X (drop k scaled) \<and>
       y_train = make_y (take (k + seq_length) scaled) \<and> y_test = make_y (drop k scaled)"
  proof -
    have f1: "take ?n (make_X ?sc) @ drop ?n (make_X ?sc) = make_X ?sc" by simp
    have f2: "length (take ?n (make_X ?sc)) = ?n" using nX by simp
    have f3: "take ?n (make_X ?sc) = make_X (take (?n + seq_length) ?sc)"
      by (rule take_make_X[OF nX])
    have f4: "drop ?n (make_X ?sc) = make_X (drop ?n ?sc)" by (rule drop_make_X)
    have ny': "?n \<le> length (make_y ?sc)" using nX by (simp add: length_make_X length_make_y)
    have f5: "take ?n (make_y ?sc) = make_y (take (?n + seq_length) ?sc)"
      by (rule take_make_y[OF ny'])
    have f6: "drop ?n (make_y ?sc) = make_y (drop ?n ?sc)" by (rule drop_make_y)
    show ?thesis
      unfolding Let_def split_80_20_def prod.case nk ny
      by (intro conjI d ls f1 f2 f3 f4 f5 f6)
  qed
  from P L show ?thesis by blast
qed

theorem split_is_chronological_witness:
  "map ds (fst (split_80_20 (clean (make_prophet_df [] three_days)))) = [1, 2] \<and>
   map ds (snd (split_80_20 (clean (make_prophet_df [] three_days)))) = [3] \<and>
   list_all (\<lambda>a. list_all (\<lambda>b. ds a < ds b) (snd (split_80_20 (clean (make_prophet_df [] three_days)))))
     (fst (split_80_20 (clean (make_prophet_df [] three_days)))) \<and>
   length (make_X (snd (fit_transform (map snd (agg_by_Date [] (consecutive_days 10)))))) = 3 \<and>
   length (fst (split_80_20 (make_X (snd (fit_transform (map snd (agg_by_Date [] (consecutive_days 10)))))))) = 2 \<and>
   fst (split_80_20 (make_X (snd (fit_transform (map snd (agg_by_Date [] (consecutive_days 10)))))))
     = make_X (take 9 (snd (fit_transform (map snd (agg_by_Date [] (consecutive_days 10))))))"
proof -
  note t = split_is_chronological[of "[]" three_days "[]" "consecutive_days 10",
      unfolded Let_def case_prod_beta sort_three_days sort_consecutive_days]
  let ?sc = "snd (fit_transform (map snd (agg_by_Date [] (consecutive_days 10))))"
  have n: "length (make_X ?sc) = 3"
    by (simp add: length_make_X fit_transform_def length_transform length_agg_consecutive_days seq_length_def)
  have k: "nat \<lfloor>0.8 * real (length (make_X ?sc))\<rfloor> = 2"
    unfolding n train_size_floor[symmetric] by (simp add: train_size_div)
  from t have "\<forall>a \<in> set (fst (split_80_20 (clean (make_prophet_df [] three_days)))).
      \<forall>b \<in> set (snd (split_80_20 (clean (make_prophet_df [] three_days)))). ds a < ds b"
    by (elim conjE)
  then have b: "list_all (\<lambda>a. list_all (\<lambda>b. ds a < ds b)
       (snd (split_80_20 (clean (make_prophet_df [] three_days)))))
     (fst (split_80_20 (clean (make_prophet_df [] three_days))))"
    by (simp add: list_all_iff)
  from t have l: "length (fst (split_80_20 (make_X ?sc))) = nat \<lfloor>0.8 * real (length (make_X ?sc))\<rfloor>"
    by (elim conjE)
  from t have e: "fst (split_80_20 (make_X ?sc))
       = make_X (take (nat \<lfloor>0.8 * real (length (make_X ?sc))\<rfloor> + seq_length) ?sc)"
    by (elim conjE)
  from e have e': "fst (split_80_20 (make_X ?sc)) = make_X (take 9 ?sc)"
    unfolding k by (simp add: seq_length_def)
  from l have l': "length (fst (split_80_20 (make_X ?sc))) = 2" unfolding k .
  show ?thesis
    by (intro conjI split_three_days b n l' e')
qed

section \<open>Metrics and forecasts of the same brands\<close>

text \<open>
  Claim C10. In each forecaster a brand gets a metrics row exactly when it contributes
  forecast rows: whenever a run writes its two tables, the brands of the forecast table are
  the brands of the metrics table. (A brand that passes the guards appends its metrics row
  and a non-empty forecast frame in the same iteration; a run that raises writes nothing.)
\<close>

theorem metrics_and_forecast_brands_agree:
  "(forecast_with_prophet fit_model predict_row processed = Inr (Some (fc, ms)) \<longrightarrow>
      p_Brand ` set fc = m_Brand ` set ms) \<and>
   (run_lstm_forecast train_model forward lprocessed = Inr (Some (lfc, lms)) \<longrightarrow>
      f_Brand ` set lfc = m_Brand ` set lms)"
proof (intro conjI impI)
  assume a: "forecast_with_prophet fit_model predict_row processed = Inr (Some (fc, ms))"
  then obtain df where df: "processed = Some df"
    by (cases processed) (auto simp: forecast_with_prophet_def)
  let ?body = "prophet_brand fit_model predict_row (columns df)"
  from a df obtain fcs where
    l: "brand_loop ?body (groupby_Brand (rows df)) ([], []) = Inr (fcs, ms)" and fc: "fc = concat fcs"
    by (auto simp: forecast_with_prophet_def split: sum.splits if_splits)
  have "p_Brand ` set (concat fcs) = m_Brand ` set ms"
  proof (rule brand_loop_brands[OF _ l])
    fix b g m f
    assume "?body b g = Inr (Some (m, f))"
    from prophet_brand_Some[OF this]
    have "m_Brand m = b" "\<forall>r \<in> set f. p_Brand r = b" "length (map p_Date f) \<ge> 30"
      by simp_all
    then show "m_Brand m = b \<and> f \<noteq> [] \<and> (\<forall>r \<in> set f. p_Brand r = b)" by auto
  qed simp
  with fc show "p_Brand ` set fc = m_Brand ` set ms" by simp
next
  assume a: "run_lstm_forecast train_model forward lprocessed = Inr (Some (lfc, lms))"
  then obtain df where df: "lprocessed = Some df"
    by (cases lprocessed) (auto simp: run_lstm_forecast_def)
  let ?body = "lstm_brand train_model forward (columns df)"
  from a df obtain fcs where
    l: "brand_loop ?body (groupby_Brand (rows df)) ([], []) = Inr (fcs, lms)" and fc: "lfc = concat fcs"
    by (auto simp: run_lstm_forecast_def split: sum.splits if_splits)
  have "f_Brand ` set (concat fcs) = m_Brand ` set lms"
  proof (rule brand_loop_brands[OF _ l])
    fix b g m f
    assume "?body b g = Inr (Some (m, f))"
    from lstm_brand_Some[OF this]
    have "m_Brand m = b" "\<forall>r \<in> set f. f_Brand r = b" "length (map f_Date f) = 30"
      by simp_all
    then show "m_Brand m = b \<and> f \<noteq> [] \<and> (\<forall>r \<in> set f. f_Brand r = b)" by auto
  qed simp
  with fc show "f_Brand ` set lfc = m_Brand ` set lms" by simp
qed

theorem metrics_and_forecast_brands_agree_witness:
  "(\<exists>fc ms. forecast_with_prophet (\<lambda>train regs. ()) (\<lambda>model d xs. (0, 0, 0))
       (Some \<lparr>columns = [], rows = three_days\<rparr>) = Inr (Some (fc, ms)) \<and>
     p_Brand ` set fc = m_Brand ` set ms) \<and>
   (\<exists>fc ms. run_lstm_forecast (\<lambda>X y. ()) (\<lambda>model w. 0)
       (Some \<lparr>columns = [], rows = consecutive_days 27\<rparr>) = Inr (Some (fc, ms)) \<and>
     f_Brand ` set fc = m_Brand ` set ms)"
proof -
  from prophet_run_three_days[of "\<lambda>train regs. ()" "\<lambda>model d xs. (0, 0, 0)"]
  obtain fc ms where p: "forecast_with_prophet (\<lambda>train regs. ()) (\<lambda>model d xs. (0, 0, 0))
       (Some \<lparr>columns = [], rows = three_days\<rparr>) = Inr (Some (fc, ms))"
    by (elim exE conjE)
  have "(27::nat) \<le> 27" by simp
  from lstm_run_consecutive_days[OF this, of "\<lambda>X y. ()" "\<lambda>model w. 0" "[]"]
  obtain lfc lms where l: "run_lstm_forecast (\<lambda>X y. ()) (\<lambda>model w. 0)
       (Some \<lparr>columns = [], rows = consecutive_days 27\<rparr>) = Inr (Some (lfc, lms))"
    by (elim exE)
  note t = metrics_and_forecast_brands_agree[of "\<lambda>train regs. ()" "\<lambda>model d xs. (0, 0, 0)"
      "Some \<lparr>columns = [], rows = three_days\<rparr>" fc ms "\<lambda>X y. ()" "\<lambda>model w. 0"
      "Some \<lparr>columns = [], rows = consecutive_days 27\<rparr>" lfc lms]
  from t[THEN conjunct1, THEN mp, OF p] have a: "p_Brand ` set fc = m_Brand ` set ms" .
  from t[THEN conjunct2, THEN mp, OF l] have b: "f_Brand ` set lfc = m_Brand ` set lms" .
  have A: "\<exists>fc ms. forecast_with_prophet (\<lambda>train regs. ()) (\<lambda>model d xs. (0, 0, 0))
       (Some \<lparr>columns = [], rows = three_days\<rparr>) = Inr (Some (fc, ms)) \<and>
     p_Brand ` set fc = m_Brand ` set ms"
    by (rule exI[of _ fc], rule exI[of _ ms], rule conjI[OF p a])
  have B: "\<exists>fc ms. run_lstm_forecast (\<lambda>X y. ()) (\<lambda>model w. 0)
       (Some \<lparr>columns = [], rows = consecutive_days 27\<rparr>) = Inr (Some (fc, ms)) \<and>
     f_Brand ` set fc = m_Brand ` set ms"
    by (rule exI[of _ lfc], rule exI[of _ lms], rule conjI[OF l b])
  from A B show ?thesis by (rule conjI)
qed

section \<open>Isolation of a malformed brand\<close>

text \<open>
  Claim C4 asks that a malformed brand never prevents the forecasts of the healthy brands.
  The seasonal forecaster breaks it. Brand \<open>A\<close> of \<open>ten_days\<close> has no \<^verbatim>\<open>Promotion\<close> on its
  last day; it fails none of the guards, since the guard on missing values reads the training
  split only, and the prediction on its holdout split raises \<^verbatim>\<open>ValueError\<close>. The two tables are
  written after the loop, so the run on the healthy brand \<open>H\<close> together with brand \<open>A\<close>
  writes nothing, while the run on the rows of brand \<open>H\<close> alone writes 38 forecast rows and a
  metrics row for \<open>H\<close>.
\<close>

theorem malformed_brand_aborts_healthy_run:
  "forecast_with_prophet fit_model predict_row
     (Some \<lparr>columns = [''Promotion''], rows = healthy_days @ ten_days\<rparr>) = Inl ValueError \<and>
   (\<exists>fc ms. forecast_with_prophet fit_model predict_row
       (Some \<lparr>columns = [''Promotion''], rows = [r \<leftarrow> healthy_days @ ten_days. Brand r \<noteq> ''A'']\<rparr>)
         = Inr (Some (fc, ms)) \<and>
       length fc = 38 \<and> map m_Brand ms = [''H'']) \<and>
   \<not> (let prophet_df = clean (make_prophet_df [''Promotion''] (sort_key Date ten_days));
           (train, test) = split_80_20 prophet_df
       in length prophet_df < 3 \<or> length train < 2 \<or> isnull_any [''Promotion''] train \<or> test = [])"
proof -
  from prophet_run_healthy_days[of fit_model predict_row] obtain fc ms where
    r: "forecast_with_prophet fit_model predict_row
         (Some \<lparr>columns = [''Promotion''], rows = healthy_days\<rparr>) = Inr (Some (fc, ms))"
    and d: "map p_Date fc = map int [1..<39]" and m: "map m_Brand ms = [''H'']"
    by (elim exE conjE)
  from d have "length (map p_Date fc) = 38" by simp
  then have l: "length fc = 38" by simp
  have h: "\<exists>fc ms. forecast_with_prophet fit_model predict_row
       (Some \<lparr>columns = [''Promotion''], rows = [r \<leftarrow> healthy_days @ ten_days. Brand r \<noteq> ''A'']\<rparr>)
         = Inr (Some (fc, ms)) \<and>
       length fc = 38 \<and> map m_Brand ms = [''H'']"
    unfolding healthy_without_ten_days
    by (rule exI[of _ fc], rule exI[of _ ms], intro conjI r l m)
  show ?thesis
    by (intro conjI prophet_run_healthy_and_ten_days h ten_days_passes_guards)
qed

text \<open>
  What the guards do achieve: a brand that fails a guard is skipped and the loop goes on. In
  the seasonal forecaster the guards are: fewer than 3 rows after the rows with a missing or
  infinite target are dropped, fewer than 2 training rows, a missing value in the training
  split, an empty holdout split. In the sequence forecaster, on numeric cells: fewer than
  \<open>seq_length + 1\<close> rows, fewer than 20 samples. For such a brand the body of the loop is a
  \<^verbatim>\<open>continue\<close>, and the run on the whole table gives exactly what the run on the table without
  the rows of this brand gives.
\<close>

lemma guard_skipped_brand_is_isolated:
  "((let brand_df = [r \<leftarrow> rows df. Brand r = b];
         prophet_df = clean (make_prophet_df (columns df) (sort_key Date brand_df));
         (train, test) = split_80_20 prophet_df
     in length prophet_df < 3 \<or> length train < 2 \<or> isnull_any (columns df) train \<or> test = [])
    \<longrightarrow> prophet_brand fit_model predict_row (columns df) b [r \<leftarrow> rows df. Brand r = b] = Inr None \<and>
        forecast_with_prophet fit_model predict_row (Some (df\<lparr>rows := [r \<leftarrow> rows df. Brand r \<noteq> b]\<rparr>))
          = forecast_with_prophet fit_model predict_row (Some df)) \<and>
   ((let brand_df = [r \<leftarrow> rows ldf. Brand r = b];
         lstm_df = agg_by_Date (columns ldf) (sort_key Date brand_df);
         X = make_X (snd (fit_transform (map snd lstm_df)))
     in length lstm_df < seq_length + 1 \<or> length X < 20)
    \<longrightarrow> lstm_brand train_model forward (columns ldf) b [r \<leftarrow> rows ldf. Brand r = b] = Inr None \<and>
        run_lstm_forecast train_model forward (Some (ldf\<lparr>rows := [r \<leftarrow> rows ldf. Brand r \<noteq> b]\<rparr>))
          = run_lstm_forecast train_model forward (Some ldf))"
proof (intro conjI impI)
  assume "let brand_df = [r \<leftarrow> rows df. Brand r = b];
         prophet_df = clean (make_prophet_df (columns df) (sort_key Date brand_df));
         (train, test) = split_80_20 prophet_df
     in length prophet_df < 3 \<or> length train < 2 \<or> isnull_any (columns df) train \<or> test = []"
  then have "let prophet_df = clean (make_prophet_df (columns df) (sort_key Date [r \<leftarrow> rows df. Brand r = b]));
         (train, test) = split_80_20 prophet_df
     in length prophet_df < 3 \<or> length train < 2 \<or> isnull_any (columns df) train \<or> test = []"
    by (simp add: Let_def)
  then show s: "prophet_brand fit_model predict_row (columns df) b [r \<leftarrow> rows df. Brand r = b] = Inr None"
    by (rule prophet_brand_skip)
  show "forecast_with_prophet fit_model predict_row (Some (df\<lparr>rows := [r \<leftarrow> rows df. Brand r \<noteq> b]\<rparr>))
          = forecast_with_prophet fit_model predict_row (Some df)"
    by (simp add: forecast_with_prophet_def
          run_without_skipped_brand[of "prophet_brand fit_model predict_row (columns df)" b "rows df", OF s])
next
  assume "let brand_df = [r \<leftarrow> rows ldf. Brand r = b];
         lstm_df = agg_by_Date (columns ldf) (sort_key Date brand_df);
         X = make_X (snd (fit_transform (map snd lstm_df)))
     in length lstm_df < seq_length + 1 \<or> length X < 20"
  then have "let lstm_df = agg_by_Date (columns ldf) (sort_key Date [r \<leftarrow> rows ldf. Brand r = b]);
         X = make_X (snd (fit_transform (map snd lstm_df)))
     in length lstm_df < seq_length + 1 \<or> length X < 20"
    by (simp add: Let_def)
  then show s: "lstm_brand train_model forward (columns ldf) b [r \<leftarrow> rows ldf. Brand r = b] = Inr None"
    by (rule lstm_brand_skip)
  show "run_lstm_forecast train_model forward (Some (ldf\<lparr>rows := [r \<leftarrow> rows ldf. Brand r \<noteq> b]\<rparr>))
          = run_lstm_forecast train_model forward (Some ldf)"
    by (simp add: run_lstm_forecast_def
          run_without_skipped_brand[of "lstm_brand train_model forward (columns ldf)" b "rows ldf", OF s])
qed

lemma guard_skipped_brand_example:
  "length (clean (make_prophet_df [] (sort_key Date [r \<leftarrow> three_days @ infinite_sales. Brand r = ''B'']))) < 3 \<and>
   forecast_with_prophet (\<lambda>train regs. ()) (\<lambda>model d xs. (0, 0, 0))
       (Some \<lparr>columns = [], rows = [r \<leftarrow> three_days @ infinite_sales. Brand r \<noteq> ''B'']\<rparr>)
     = forecast_with_prophet (\<lambda>train regs. ()) (\<lambda>model d xs. (0, 0, 0))
         (Some \<lparr>columns = [], rows = three_days @ infinite_sales\<rparr>) \<and>
   length (agg_by_Date [] (sort_key Date [r \<leftarrow> consecutive_days 27 @ one_day. Brand r = ''B''])) < seq_length + 1 \<and>
   run_lstm_forecast (\<lambda>X y. ()) (\<lambda>model w. 0)
       (Some \<lparr>columns = [], rows = [r \<leftarrow> consecutive_days 27 @ one_day. Brand r \<noteq> ''B'']\<rparr>)
     = run_lstm_forecast (\<lambda>X y. ()) (\<lambda>model w. 0)
         (Some \<lparr>columns = [], rows = consecutive_days 27 @ one_day\<rparr>)"
proof -
  let ?df = "\<lparr>columns = [], rows = three_days @ infinite_sales\<rparr>"
  let ?ldf = "\<lparr>columns = [], rows = consecutive_days 27 @ one_day\<rparr>"
  have p: "length (clean (make_prophet_df [] (sort_key Date [r \<leftarrow> three_days @ infinite_sales. Brand r = ''B'']))) < 3"
    unfolding infinite_sales_only infinite_sales_cleaned by simp
  have l: "length (agg_by_Date [] (sort_key Date [r \<leftarrow> consecutive_days 27 @ one_day. Brand r = ''B''])) < seq_length + 1"
    unfolding one_day_only one_day_agg by (simp add: seq_length_def)
  note t = guard_skipped_brand_is_isolated[where df = ?df and b = "''B''"
      and fit_model = "\<lambda>train regs. ()" and predict_row = "\<lambda>model d xs. (0, 0, 0)"
      and ldf = ?ldf and train_model = "\<lambda>X y. ()" and forward = "\<lambda>model w. 0"]
  have pc: "let brand_df = [r \<leftarrow> rows ?df. Brand r = ''B''];
         prophet_df = clean (make_prophet_df (columns ?df) (sort_key Date brand_df));
         (train, test) = split_80_20 prophet_df
     in length prophet_df < 3 \<or> length train < 2 \<or> isnull_any (columns ?df) train \<or> test = []"
    using p by (simp add: Let_def case_prod_beta)
  have lc: "let brand_df = [r \<leftarrow> rows ?ldf. Brand r = ''B''];
         lstm_df = agg_by_Date (columns ?ldf) (sort_key Date brand_df);
         X = make_X (snd (fit_transform (map snd lstm_df)))
     in length lstm_df < seq_length + 1 \<or> length X < 20"
    using l by (simp add: Let_def)
  from t[THEN conjunct1, THEN mp, OF pc, THEN conjunct2]
  have a: "forecast_with_prophet (\<lambda>train regs. ()) (\<lambda>model d xs. (0, 0, 0))
       (Some \<lparr>columns = [], rows = [r \<leftarrow> three_days @ infinite_sales. Brand r \<noteq> ''B'']\<rparr>)
     = forecast_with_prophet (\<lambda>train regs. ()) (\<lambda>model d xs. (0, 0, 0)) (Some ?df)"
    by simp
  from t[THEN conjunct2, THEN mp, OF lc, THEN conjunct2]
  have b: "run_lstm_forecast (\<lambda>X y. ()) (\<lambda>model w. 0)
       (Some \<lparr>columns = [], rows = [r \<leftarrow> consecutive_days 27 @ one_day. Brand r \<noteq> ''B'']\<rparr>)
     = run_lstm_forecast (\<lambda>X y. ()) (\<lambda>model w. 0) (Some ?ldf)"
    by simp
  show ?thesis by (intro conjI p a l b)
qed

section \<open>The rows of the forecast tables\<close>

text \<open>
  Claim C1 asks of each forecaster exactly 30 rows per forecast brand, on consecutive days
  after the last observed date of the brand. The sequence forecaster does this
  (\<open>lstm_brand_Some\<close>). The seasonal forecaster does not: the future frame comes from
  \<^verbatim>\<open>make_future_dataframe\<close> of a model fitted on the training split, so the table holds the
  training dates and then 30 days after the last training date (\<open>prophet_brand_Some\<close>).
  For brand \<open>A\<close> observed on the days 1 to 10 the seasonal forecaster writes 38 rows, for the
  days 1 to 38, of which the days 1 to 10 are not after the last observed date 10.
\<close>

theorem seasonal_forecast_includes_history:
  "\<exists>fc ms. forecast_with_prophet fit_model predict_row (Some \<lparr>columns = [], rows = ten_days\<rparr>)
       = Inr (Some (fc, ms)) \<and>
     length fc = 38 \<and> map p_Date fc = map int [1..<39] \<and>
     Max (set (map Date ten_days)) = 10"
proof -
  from prophet_run_ten_days[of fit_model predict_row] obtain fc ms where
    r: "forecast_with_prophet fit_model predict_row (Some \<lparr>columns = [], rows = ten_days\<rparr>)
       = Inr (Some (fc, ms))" and d: "map p_Date fc = map int [1..<39]"
    by (elim exE conjE)
  from d have "length (map p_Date fc) = 38" by simp
  then have l: "length fc = 38" by simp
  have m: "Max (set (map Date ten_days)) = 10" by (simp add: ten_days_rows)
  from r l d m show ?thesis by blast
qed

section \<open>Errors that end a run\<close>

text \<open>
  Claim C6 asks that a run aborts only when its input file is missing. Each entry point
  raises \<^verbatim>\<open>FileNotFoundError\<close> exactly when the file is missing
  (\<open>preprocess_data_error_iff\<close>, \<open>prophet_run_FileNotFoundError_iff\<close>,
  \<open>lstm_run_FileNotFoundError_iff\<close>), but the seasonal forecaster
  can abort on a table that exists: its guard looks for missing values in the training split
  only. For brand \<open>A\<close> of \<open>ten_days\<close> with the column \<^verbatim>\<open>Promotion\<close>, the training split (the
  first 8 days) has no missing value and \<^verbatim>\<open>Promotion\<close> is admitted as a regressor, the last
  holdout row has no \<^verbatim>\<open>Promotion\<close>, and the prediction on the holdout split raises
  \<^verbatim>\<open>ValueError\<close>, which nothing catches.
\<close>

theorem seasonal_run_aborts_on_missing_holdout_regressor:
  "forecast_with_prophet fit_model predict_row
     (Some \<lparr>columns = [''Promotion''], rows = ten_days\<rparr>) = Inl ValueError \<and>
   \<not> isnull_any [''Promotion'']
       (fst (split_80_20 (clean (make_prophet_df [''Promotion''] (sort_key Date ten_days))))) \<and>
   map (\<lambda>r. x r ''Promotion'')
       (snd (split_80_20 (clean (make_prophet_df [''Promotion''] (sort_key Date ten_days)))))
     = [Fin 1, NaN]"
  using prophet_run_ten_days_missing ten_days_guard ten_days_holdout by blast

section \<open>Normalisation in the preprocessing\<close>

text \<open>
  Claim C7 says that every covariate but the sales target is normalised. The stage normalises
  the columns of its list \<^verbatim>\<open>numeric_cols_to_normalize\<close> only. \<^verbatim>\<open>Discount_Percentage\<close>, a
  covariate that the seasonal forecaster takes as a regressor, is not in the list and is left
  as it is: on the three raw rows its cells stay 0, 1, 2, which is not their normalisation.
\<close>

theorem discount_is_not_normalized:
  "cells ''Discount_Percentage''
     (normalize_columns [''Quantity_Sold'', ''Discount_Percentage''] three_raw_rows)
     = [Some 0, Some 1, Some 2] \<and>
   zscore (cells ''Discount_Percentage'' three_raw_rows)
     = [Some (- (1000000 / 1000001)), Some 0, Some (1000000 / 1000001)] \<and>
   cells ''Discount_Percentage''
     (normalize_columns [''Quantity_Sold'', ''Discount_Percentage''] three_raw_rows)
     \<noteq> zscore (cells ''Discount_Percentage'' three_raw_rows)"
proof -
  have "''Discount_Percentage'' \<notin> set numeric_cols_to_normalize"
    by (simp add: numeric_cols_to_normalize_def)
  then have a: "cells ''Discount_Percentage''
     (normalize_columns [''Quantity_Sold'', ''Discount_Percentage''] three_raw_rows)
     = [Some 0, Some 1, Some 2]"
    by (simp add: cells_normalize_columns cells_three_raw_rows)
  have b: "zscore (cells ''Discount_Percentage'' three_raw_rows)
     = [Some (- (1000000 / 1000001)), Some 0, Some (1000000 / 1000001)]"
    by (simp add: cells_three_raw_rows zscore_012)
  show ?thesis unfolding a b by simp
qed

text \<open>
  Claim C7, amended. A column of the list \<^verbatim>\<open>numeric_cols_to_normalize\<close> that the table has is
  replaced by \<open>(x - mean) / (std + 10\<^sup>-\<^sup>6)\<close>, with the mean and the sample standard deviation
  of the column over the whole table (not per brand); every column outside the list is left
  unchanged, and \<^verbatim>\<open>Total_Sales\<close>, \<^verbatim>\<open>Promotion\<close>, \<^verbatim>\<open>Discount_Percentage\<close> and \<^verbatim>\<open>Is_Holiday\<close> are
  outside the list. The denominator is positive, and the normalised column has mean 0.
\<close>

theorem normalization_of_selected_columns:
  "(c \<in> set numeric_cols_to_normalize \<and> c \<in> set cols \<longrightarrow>
      cells c (normalize_columns cols df) = zscore (cells c df)) \<and>
   (c \<notin> set numeric_cols_to_normalize \<longrightarrow> cells c (normalize_columns cols df) = cells c df) \<and>
   (pd_mean vs = Some m \<and> pd_std vs = Some sd \<longrightarrow>
      0 < sd + 1 / 10 ^ 6 \<and>
      zscore vs = map (map_option (\<lambda>v. (v - m) / (sd + 1 / 10 ^ 6))) vs \<and>
      pd_mean (zscore vs) = Some 0) \<and>
   set numeric_cols_to_normalize \<inter>
     {''Total_Sales'', ''Promotion'', ''Discount_Percentage'', ''Is_Holiday''} = {}"
proof (intro conjI impI)
  assume "c \<in> set numeric_cols_to_normalize \<and> c \<in> set cols"
  then show "cells c (normalize_columns cols df) = zscore (cells c df)"
    by (simp add: cells_normalize_columns)
next
  assume "c \<notin> set numeric_cols_to_normalize"
  then show "cells c (normalize_columns cols df) = cells c df"
    by (simp add: cells_normalize_columns)
next
  assume a: "pd_mean vs = Some m \<and> pd_std vs = Some sd"
  then show "0 < sd + 1 / 10 ^ 6" by (intro zscore_Some(1)[of vs m sd]) simp_all
  from a show "zscore vs = map (map_option (\<lambda>v. (v - m) / (sd + 1 / 10 ^ 6))) vs"
    by (intro zscore_Some(2)) simp_all
  from a show "pd_mean (zscore vs) = Some 0"
    by (intro zscore_Some(3)[of vs m sd]) simp_all
next
  show "set numeric_cols_to_normalize \<inter>
     {''Total_Sales'', ''Promotion'', ''Discount_Percentage'', ''Is_Holiday''} = {}"
    by (simp add: numeric_cols_to_normalize_def)
qed

theorem normalization_of_selected_columns_witness:
  "''Quantity_Sold'' \<in> set numeric_cols_to_normalize \<and>
   cells ''Quantity_Sold'' (normalize_columns [''Quantity_Sold'', ''Discount_Percentage''] three_raw_rows)
     = [Some (- (1000000 / 1000001)), Some 0, Some (1000000 / 1000001)] \<and>
   pd_mean [Some 0, Some 1, Some 2] = Some 1 \<and> pd_std [Some 0, Some 1, Some 2] = Some 1 \<and>
   pd_mean (zscore [Some 0, Some 1, Some 2]) = Some 0"
proof -
  have q: "''Quantity_Sold'' \<in> set numeric_cols_to_normalize \<and>
           ''Quantity_Sold'' \<in> set [''Quantity_Sold'', ''Discount_Percentage'']"
    by (simp add: numeric_cols_to_normalize_def)
  have ms: "pd_mean [Some 0, Some 1, Some 2] = Some 1 \<and> pd_std [Some 0, Some 1, Some 2] = Some 1"
    by (simp add: pd_mean_012 pd_std_012)
  note t = normalization_of_selected_columns[where c = "''Quantity_Sold''"
      and cols = "[''Quantity_Sold'', ''Discount_Percentage'']" and df = three_raw_rows
      and vs = "[Some 0, Some 1, Some 2]" and m = 1 and sd = 1]
  from t[THEN conjunct1, THEN mp, OF q]
  have a: "cells ''Quantity_Sold'' (normalize_columns [''Quantity_Sold'', ''Discount_Percentage''] three_raw_rows)
     = [Some (- (1000000 / 1000001)), Some 0, Some (1000000 / 1000001)]"
    by (simp add: cells_three_raw_rows zscore_012)
  from t[THEN conjunct2, THEN conjunct2, THEN conjunct1, THEN mp, OF ms]
  have z: "pd_mean (zscore [Some 0, Some 1, Some 2]) = Some 0" by (elim conjE)
  from q a ms z show ?thesis by (intro conjI) simp_all
qed

section \<open>Runs of the preprocessing\<close>

text \<open>
  Claim C9. The preprocessing is deterministic and idempotent as a run: it reads the raw file
  only and writes the processed file only, so a second run on the unchanged raw table returns
  the same table and leaves the files as the first run left them. The aggregated table has
  exactly one row for each key \<^verbatim>\<open>(Category, Brand, Date)\<close> of the raw rows that have a date.
\<close>

theorem preprocessing_is_idempotent_with_one_row_per_key:
  "(let (r1, fs1) = preprocess_data fs; (r2, fs2) = preprocess_data fs1 in r2 = r1 \<and> fs2 = fs1) \<and>
   (RAW_DATA_FILE fs = Some raw \<longrightarrow>
      preprocess_data fs = (Inr (preprocess raw), fs\<lparr>PROCESSED_FILE := Some (preprocess raw)\<rparr>) \<and>
      distinct (map (\<lambda>r. (a_Category r, a_Brand r, a_Date r)) (a_rows (preprocess raw))) \<and>
      set (map (\<lambda>r. (a_Category r, a_Brand r, a_Date r)) (a_rows (preprocess raw)))
        = {(c, b, d). (c, b, Some d) \<in> set (map raw_key (r_rows raw))})"
proof (intro conjI impI)
  show "let (r1, fs1) = preprocess_data fs; (r2, fs2) = preprocess_data fs1 in r2 = r1 \<and> fs2 = fs1"
    by (rule preprocess_data_twice)
next
  assume "RAW_DATA_FILE fs = Some raw"
  then show "preprocess_data fs = (Inr (preprocess raw), fs\<lparr>PROCESSED_FILE := Some (preprocess raw)\<rparr>)"
    by (simp add: preprocess_data_def Let_def)
next
  show "distinct (map (\<lambda>r. (a_Category r, a_Brand r, a_Date r)) (a_rows (preprocess raw)))"
    unfolding preprocess_keys by (rule distinct_group_keys)
next
  show "set (map (\<lambda>r. (a_Category r, a_Brand r, a_Date r)) (a_rows (preprocess raw)))
        = {(c, b, d). (c, b, Some d) \<in> set (map raw_key (r_rows raw))}"
    unfolding preprocess_keys set_group_keys keys_before_aggregation ..
qed

theorem preprocessing_is_idempotent_with_one_row_per_key_witness:
  "RAW_DATA_FILE \<lparr>RAW_DATA_FILE = Some \<lparr>r_columns = [], r_rows = three_raw_rows\<rparr>, PROCESSED_FILE = None\<rparr>
     = Some \<lparr>r_columns = [], r_rows = three_raw_rows\<rparr> \<and>
   distinct (map (\<lambda>r. (a_Category r, a_Brand r, a_Date r))
      (a_rows (preprocess \<lparr>r_columns = [], r_rows = three_raw_rows\<rparr>))) \<and>
   set (map (\<lambda>r. (a_Category r, a_Brand r, a_Date r))
      (a_rows (preprocess \<lparr>r_columns = [], r_rows = three_raw_rows\<rparr>)))
     = {(''C'', ''A'', 1), (''C'', ''A'', 2), (''C'', ''A'', 3)} \<and>
   PROCESSED_FILE (snd (preprocess_data
      \<lparr>RAW_DATA_FILE = Some \<lparr>r_columns = [], r_rows = three_raw_rows\<rparr>, PROCESSED_FILE = None\<rparr>))
     = Some (preprocess \<lparr>r_columns = [], r_rows = three_raw_rows\<rparr>)"
proof -
  let ?raw = "\<lparr>r_columns = [], r_rows = three_raw_rows\<rparr>"
  let ?fs = "\<lparr>RAW_DATA_FILE = Some ?raw, PROCESSED_FILE = None\<rparr>"
  have f: "RAW_DATA_FILE ?fs = Some ?raw" by simp
  note t = preprocessing_is_idempotent_with_one_row_per_key[where fs = ?fs and raw = ?raw,
      THEN conjunct2, THEN mp, OF f]
  from t have d: "distinct (map (\<lambda>r. (a_Category r, a_Brand r, a_Date r)) (a_rows (preprocess ?raw)))"
    by (elim conjE)
  from t have "set (map (\<lambda>r. (a_Category r, a_Brand r, a_Date r)) (a_rows (preprocess ?raw)))
        = {(c, b, d). (c, b, Some d) \<in> set (map raw_key (r_rows ?raw))}"
    by (elim conjE)
  then have s: "set (map (\<lambda>r. (a_Category r, a_Brand r, a_Date r)) (a_rows (preprocess ?raw)))
     = {(''C'', ''A'', 1), (''C'', ''A'', 2), (''C'', ''A'', 3)}"
    by (simp only: keys_three_raw_rows raw_table.simps)
  from t have "preprocess_data ?fs = (Inr (preprocess ?raw), ?fs\<lparr>PROCESSED_FILE := Some (preprocess ?raw)\<rparr>)"
    by (elim conjE)
  then have p: "PROCESSED_FILE (snd (preprocess_data ?fs)) = Some (preprocess ?raw)" by simp
  from f d s p show ?thesis by (intro conjI)
qed

end
